theory Spec2Isabelle
  imports Complex_Main
begin

section \<open>JavaScript values as server.js handles them\<close>

text \<open>
  The request body, the parsed tool-call arguments and the card returned to the widget are
  all JSON-shaped JavaScript values. A number is an IEEE double: \<open>Fin q\<close> stands for the
  double whose exact value is the rational \<open>q\<close> (\<open>+0\<close> and \<open>-0\<close> are both \<open>Fin 0\<close>;
  the code never tells them apart). A string is the list of its code units, each of them a
  \<open>char\<close>: the texts spoken of are those whose code units are below 256. An object is
  the list of its own properties; a key occurs once, as \<open>JSON.parse\<close> and the object
  literals of the source build it, and the first binding is the one read.
\<close>

datatype jsnum = NaN | NegInf | Fin rat | PosInf

datatype jsval =
    JUndefined
  | JNull
  | JBool bool
  | JNum jsnum
  | JStr string
  | JArr "jsval list"
  | JObj "(string \<times> jsval) list"

text \<open>
  What the handler can throw. \<open>message\<close> is the \<open>error.message\<close> that the catch block
  puts into the 500 response. The wording of the engine's own TypeErrors is the engine's
  business and only indicated here; the statements below are about the status code and
  the state, and about the messages that server.js itself composes.
\<close>

datatype js_error =
    TypeError string
  | SyntaxError string
  | Error string
  | APIError string
  | IOError string

fun message :: "js_error \<Rightarrow> string" where
  "message (TypeError m) = m"
| "message (SyntaxError m) = m"
| "message (Error m) = m"
| "message (APIError m) = m"
| "message (IOError m) = m"

text \<open>
  The host: what server.js calls and does not define. The engine's conversions that depend
  on double rounding (\<open>StringToNumber\<close>, the digits of a number that is not an integer of
  at most \<open>2^53\<close>, subtraction outside those integers), the upper case of a text outside
  ASCII and \<open>JSON.parse\<close> are functions of the host; so are the clock, the outcome of the
  file write and the three calls of the agent API. A host
  is the surroundings of one request: \<open>Date_now_toISOString\<close> is what
  \<open>new Date().toISOString()\<close> returns in it, \<open>writeFile_fault\<close> the error with which the
  write of the log file fails, if it does, and \<open>retrieve host t r k\<close> the answer to the
  \<open>k\<close>-th \<open>runs.retrieve(t, r)\<close> of the request, counted from 0.
\<close>

record tool_call =
  call_id :: string
  fn_name :: string
  fn_arguments :: string

record run_status =
  status :: string
  required_action :: "tool_call list option"

record run =
  thread_id :: string
  run_id :: string

record host =
  JSON_parse :: "string \<Rightarrow> js_error + jsval"
  StringToNumber :: "string \<Rightarrow> jsnum"
  Number_toString :: "jsnum \<Rightarrow> string"
  Number_subtract :: "jsnum \<Rightarrow> jsnum \<Rightarrow> jsnum"
  String_toUpperCase :: "string \<Rightarrow> string"
  Date_now_toISOString :: string
  writeFile_fault :: "js_error option"
  createAndRun :: "jsval \<Rightarrow> js_error + run"
  retrieve :: "string \<Rightarrow> string \<Rightarrow> nat \<Rightarrow> js_error + run_status"
  messages_list :: "string \<Rightarrow> js_error + jsval"

text \<open>Sequencing of steps that may throw: the first error ends the sequence.\<close>

definition bindE :: "js_error + 'a \<Rightarrow> ('a \<Rightarrow> js_error + 'b) \<Rightarrow> js_error + 'b" where
  "bindE m f = (case m of Inl e \<Rightarrow> Inl e | Inr x \<Rightarrow> f x)"

subsection \<open>Truthiness and \<open>||\<close>\<close>

fun ToBoolean :: "jsval \<Rightarrow> bool" where
  "ToBoolean JUndefined = False"
| "ToBoolean JNull = False"
| "ToBoolean (JBool b) = b"
| "ToBoolean (JNum n) = (n \<noteq> NaN \<and> n \<noteq> Fin 0)"
| "ToBoolean (JStr s) = (s \<noteq> [])"
| "ToBoolean (JArr xs) = True"
| "ToBoolean (JObj kvs) = True"

text \<open>\<open>a || b\<close> with a right operand that is a literal.\<close>

definition js_or :: "jsval \<Rightarrow> jsval \<Rightarrow> jsval" where
  "js_or a b = (if ToBoolean a then a else b)"

subsection \<open>Numbers as text\<close>

definition digit_char :: "nat \<Rightarrow> char" where
  "digit_char d = ''0123456789'' ! d"

fun show_nat :: "nat \<Rightarrow> string" where
  "show_nat n = (if n < 10 then [digit_char n] else show_nat (n div 10) @ [digit_char (n mod 10)])"

declare show_nat.simps [simp del]

definition is_integer :: "rat \<Rightarrow> bool" where
  "is_integer q = (q = of_int \<lfloor>q\<rfloor>)"

text \<open>
  \<open>Number::toString\<close>: an integer of at most \<open>2^53\<close> in absolute value prints as its
  decimal digits; the other finite numbers print with the shortest digits that read back
  as the same double, which the engine chooses.
\<close>

definition num_to_string :: "host \<Rightarrow> jsnum \<Rightarrow> string" where
  "num_to_string h n =
     (case n of
        NaN \<Rightarrow> ''NaN''
      | PosInf \<Rightarrow> ''Infinity''
      | NegInf \<Rightarrow> ''-Infinity''
      | Fin q \<Rightarrow>
          if is_integer q \<and> \<bar>q\<bar> \<le> 2 ^ 53
          then (if q < 0 then ''-'' @ show_nat (nat (- \<lfloor>q\<rfloor>)) else show_nat (nat \<lfloor>q\<rfloor>))
          else Number_toString h n)"

subsection \<open>\<open>ToString\<close>, \<open>ToNumber\<close>, \<open>>\<close> and \<open>-\<close>\<close>

text \<open>
  \<open>ToString\<close> of an object goes through \<open>toString\<close> and \<open>valueOf\<close>: an array joins its
  elements with commas (\<open>undefined\<close> and \<open>null\<close> as the empty string); a plain object gives
  \<open>[object Object]\<close>, unless it has an own property \<open>toString\<close>, which in a JSON value is
  never callable, and then the conversion throws.
\<close>

fun ToString :: "host \<Rightarrow> jsval \<Rightarrow> js_error + string"
and join_elems :: "host \<Rightarrow> jsval list \<Rightarrow> js_error + string" where
  "ToString h JUndefined = Inr ''undefined''"
| "ToString h JNull = Inr ''null''"
| "ToString h (JBool b) = Inr (if b then ''true'' else ''false'')"
| "ToString h (JNum n) = Inr (num_to_string h n)"
| "ToString h (JStr s) = Inr s"
| "ToString h (JArr xs) = join_elems h xs"
| "ToString h (JObj kvs) =
     (if map_of kvs ''toString'' = None then Inr ''[object Object]''
      else Inl (TypeError ''Cannot convert object to primitive value''))"
| "join_elems h [] = Inr []"
| "join_elems h [x] = (if x = JUndefined \<or> x = JNull then Inr [] else ToString h x)"
| "join_elems h (x # y # ys) =
     bindE (if x = JUndefined \<or> x = JNull then Inr [] else ToString h x) (\<lambda>a.
     bindE (join_elems h (y # ys)) (\<lambda>b. Inr (a @ '','' @ b)))"

fun ToNumber :: "host \<Rightarrow> jsval \<Rightarrow> js_error + jsnum" where
  "ToNumber h JUndefined = Inr NaN"
| "ToNumber h JNull = Inr (Fin 0)"
| "ToNumber h (JBool b) = Inr (Fin (if b then 1 else 0))"
| "ToNumber h (JNum n) = Inr n"
| "ToNumber h (JStr s) = Inr (StringToNumber h s)"
| "ToNumber h (JArr xs) = bindE (ToString h (JArr xs)) (\<lambda>s. Inr (StringToNumber h s))"
| "ToNumber h (JObj kvs) = bindE (ToString h (JObj kvs)) (\<lambda>s. Inr (StringToNumber h s))"

fun num_gt :: "jsnum \<Rightarrow> jsnum \<Rightarrow> bool" where
  "num_gt NaN b = False"
| "num_gt a NaN = False"
| "num_gt NegInf b = False"
| "num_gt (Fin x) NegInf = True"
| "num_gt (Fin x) (Fin y) = (y < x)"
| "num_gt (Fin x) PosInf = False"
| "num_gt PosInf PosInf = False"
| "num_gt PosInf b = True"

text \<open>\<open>v > k\<close> for a number literal \<open>k\<close>.\<close>

definition js_gt :: "host \<Rightarrow> jsval \<Rightarrow> rat \<Rightarrow> js_error + bool" where
  "js_gt h v k = bindE (ToNumber h v) (\<lambda>n. Inr (num_gt n (Fin k)))"

text \<open>
  \<open>v - k\<close> for a number literal \<open>k\<close>. The difference of two integers of at most \<open>2^53\<close> in
  absolute value is exact; elsewhere the double is the host's.
\<close>

definition num_sub :: "host \<Rightarrow> jsnum \<Rightarrow> jsnum \<Rightarrow> jsnum" where
  "num_sub h a b =
     (case (a, b) of
        (Fin x, Fin y) \<Rightarrow>
          if is_integer x \<and> is_integer y \<and> \<bar>x\<bar> \<le> 2 ^ 53 \<and> \<bar>y\<bar> \<le> 2 ^ 53 \<and> \<bar>x - y\<bar> \<le> 2 ^ 53
          then Fin (x - y) else Number_subtract h a b
      | _ \<Rightarrow> Number_subtract h a b)"

definition js_minus :: "host \<Rightarrow> jsval \<Rightarrow> rat \<Rightarrow> js_error + jsnum" where
  "js_minus h v k = bindE (ToNumber h v) (\<lambda>n. Inr (num_sub h n (Fin k)))"

subsection \<open>Reading a property\<close>

definition own_property :: "(string \<times> jsval) list \<Rightarrow> string \<Rightarrow> jsval" where
  "own_property kvs k = (case map_of kvs k of None \<Rightarrow> JUndefined | Some v \<Rightarrow> v)"

definition cannot_read :: "string \<Rightarrow> string \<Rightarrow> js_error" where
  "cannot_read what k =
     TypeError (''Cannot read properties of '' @ what @ '' (reading '' @ k @ '')'')"

text \<open>
  \<open>v.k\<close> for a name \<open>k\<close> written in the source. None of the names the source reads
  (\<open>messages\<close>, \<open>length\<close>, \<open>content\<close>, \<open>text\<close>, \<open>title\<close>, \<open>score\<close>, \<open>mission\<close>, \<open>archetype\<close>,
  \<open>hook\<close>, \<open>sourceURL\<close>, \<open>lenses\<close>, \<open>data\<close>, \<open>value\<close>) is a property of a built-in prototype
  other than \<open>length\<close>, so only own properties and \<open>length\<close> are looked up.
\<close>

definition js_get :: "jsval \<Rightarrow> string \<Rightarrow> js_error + jsval" where
  "js_get v k =
     (case v of
        JUndefined \<Rightarrow> Inl (cannot_read ''undefined'' k)
      | JNull \<Rightarrow> Inl (cannot_read ''null'' k)
      | JObj kvs \<Rightarrow> Inr (own_property kvs k)
      | JArr xs \<Rightarrow> Inr (if k = ''length'' then JNum (Fin (of_nat (length xs))) else JUndefined)
      | JStr s \<Rightarrow> Inr (if k = ''length'' then JNum (Fin (of_nat (length s))) else JUndefined)
      | _ \<Rightarrow> Inr JUndefined)"

text \<open>
  \<open>v[n]\<close> for a number \<open>n\<close>: an element of an array, a code unit of a string, or the own
  property of an object whose key is the number as text.
\<close>

definition array_index :: "jsnum \<Rightarrow> nat option" where
  "array_index n =
     (case n of Fin q \<Rightarrow> if is_integer q \<and> 0 \<le> q then Some (nat \<lfloor>q\<rfloor>) else None | _ \<Rightarrow> None)"

definition js_at :: "host \<Rightarrow> jsval \<Rightarrow> jsnum \<Rightarrow> js_error + jsval" where
  "js_at h v n =
     (case v of
        JUndefined \<Rightarrow> Inl (cannot_read ''undefined'' (num_to_string h n))
      | JNull \<Rightarrow> Inl (cannot_read ''null'' (num_to_string h n))
      | JObj kvs \<Rightarrow> Inr (own_property kvs (num_to_string h n))
      | JArr xs \<Rightarrow>
          Inr (case array_index n of
                 None \<Rightarrow> JUndefined
               | Some i \<Rightarrow> if i < length xs then xs ! i else JUndefined)
      | JStr s \<Rightarrow>
          Inr (case array_index n of
                 None \<Rightarrow> JUndefined
               | Some i \<Rightarrow> if i < length s then JStr [s ! i] else JUndefined)
      | _ \<Rightarrow> Inr JUndefined)"

text \<open>
  \<open>String.prototype.toUpperCase\<close>: on a text of ASCII code units the letters \<open>a\<close> to \<open>z\<close>
  become \<open>A\<close> to \<open>Z\<close> and the rest is kept; the upper case of any other text is the
  engine's. A value that is not a string has no such method, and the call throws.
\<close>

definition is_ascii :: "char \<Rightarrow> bool" where
  "is_ascii c = (\<not> digit7 c)"

definition upper_char :: "char \<Rightarrow> char" where
  "upper_char c =
     (case map_of (zip ''abcdefghijklmnopqrstuvwxyz'' ''ABCDEFGHIJKLMNOPQRSTUVWXYZ'') c of
        None \<Rightarrow> c
      | Some u \<Rightarrow> u)"

definition toUpperCase :: "host \<Rightarrow> jsval \<Rightarrow> js_error + jsval" where
  "toUpperCase h v =
     (case v of
        JStr s \<Rightarrow>
          Inr (JStr (if list_all is_ascii s then map upper_char s else String_toUpperCase h s))
      | _ \<Rightarrow> Inl (TypeError ''toUpperCase is not a function''))"

section \<open>The signal log: \<open>logSignalToCsv\<close>\<close>

text \<open>
  The log file is kept as its rows, each row the list of its cells as text; the quoting of
  a cell and the line ends are the CSV encoding of the csv-writer library and are not
  spelled out. \<open>csv_file = None\<close>: the file does not exist. \<open>calls\<close> records, in order,
  what a request asked of the agent API and how long it slept.
\<close>

type_synonym csv_row = "string list"

datatype api_call =
    CreateAndRun jsval
  | RunsRetrieve string string
  | Sleep nat
  | MessagesList string
  | SubmitToolOutputs string string

record state =
  csv_file :: "csv_row list option"
  calls :: "api_call list"

record csv_writer =
  header :: "(string \<times> string) list"
  append :: bool

definition CSV_header :: "(string \<times> string) list" where
  "CSV_header =
     [(''timestamp'', ''TIMESTAMP''),
      (''title'', ''TITLE''),
      (''score'', ''SCORE''),
      (''mission'', ''MISSION''),
      (''archetype'', ''ARCHETYPE''),
      (''hook'', ''HOOK''),
      (''sourceURL'', ''SOURCE'')]"

text \<open>
  csv-writer's object writer, as the library documents it: a record gives one row, the
  value under each header id in header order; \<open>undefined\<close>, \<open>null\<close> and the empty string
  give an empty cell, any other value the cell \<open>String(value)\<close>. The header titles are
  written first when the writer does not append, and the file is then written anew. A
  write that fails is taken to leave the file as it was.
\<close>

definition stringify_field :: "host \<Rightarrow> jsval \<Rightarrow> js_error + string" where
  "stringify_field h v =
     (if v = JUndefined \<or> v = JNull \<or> v = JStr [] then Inr [] else ToString h v)"

fun stringify_record ::
  "host \<Rightarrow> (string \<times> string) list \<Rightarrow> (string \<times> jsval) list \<Rightarrow> js_error + csv_row" where
  "stringify_record h [] record = Inr []"
| "stringify_record h (f # fs) record =
     bindE (stringify_field h (own_property record (fst f))) (\<lambda>c.
     bindE (stringify_record h fs record) (\<lambda>cs. Inr (c # cs)))"

fun stringify_records ::
  "host \<Rightarrow> (string \<times> string) list \<Rightarrow> (string \<times> jsval) list list \<Rightarrow> js_error + csv_row list" where
  "stringify_records h fs [] = Inr []"
| "stringify_records h fs (r # rs) =
     bindE (stringify_record h fs r) (\<lambda>row.
     bindE (stringify_records h fs rs) (\<lambda>rows. Inr (row # rows)))"

definition writeRecords ::
  "host \<Rightarrow> csv_writer \<Rightarrow> (string \<times> jsval) list list \<Rightarrow> state \<Rightarrow> (js_error + unit) \<times> state" where
  "writeRecords h w records st =
     (case stringify_records h (header w) records of
        Inl e \<Rightarrow> (Inl e, st)
      | Inr rows \<Rightarrow>
          (case writeFile_fault h of
             Some e \<Rightarrow> (Inl e, st)
           | None \<Rightarrow>
               (Inr (),
                st\<lparr>csv_file :=
                     Some (if append w
                           then (case csv_file st of None \<Rightarrow> [] | Some rows0 \<Rightarrow> rows0) @ rows
                           else map snd (header w) # rows)\<rparr>)))"

text \<open>Lines 45 to 53: the record that is written.\<close>

definition signal_record :: "host \<Rightarrow> jsval \<Rightarrow> js_error + (string \<times> jsval) list" where
  "signal_record h data =
     bindE (js_get data ''title'') (\<lambda>title.
     bindE (js_get data ''score'') (\<lambda>score.
     bindE (js_get data ''mission'') (\<lambda>mission.
     bindE (js_get data ''archetype'') (\<lambda>archetype.
     bindE (js_get data ''hook'') (\<lambda>hook.
     bindE (js_get data ''sourceURL'') (\<lambda>sourceURL.
       Inr [(''timestamp'', JStr (Date_now_toISOString h)),
            (''title'', js_or title (JStr ''Unknown'')),
            (''score'', js_or score (JNum (Fin 0))),
            (''mission'', js_or mission (JStr ''Adj'')),
            (''archetype'', js_or archetype (JStr ''Signal'')),
            (''hook'', js_or hook (JStr [])),
            (''sourceURL'', js_or sourceURL (JStr []))]))))))"

text \<open>
  Lines 30 to 57. The writer appends when the file exists. The last line logs the title to
  the console, which converts it to text; the console itself is not part of the state.
\<close>

definition logSignalToCsv :: "host \<Rightarrow> jsval \<Rightarrow> state \<Rightarrow> (js_error + unit) \<times> state" where
  "logSignalToCsv h data st =
     (let csvWriter = \<lparr>header = CSV_header, append = (csv_file st \<noteq> None)\<rparr> in
      case signal_record h data of
        Inl e \<Rightarrow> (Inl e, st)
      | Inr record \<Rightarrow>
          (case writeRecords h csvWriter [record] st of
             (Inl e, st') \<Rightarrow> (Inl e, st')
           | (Inr u, st') \<Rightarrow>
               (case ToString h (own_property record ''title'') of
                  Inl e \<Rightarrow> (Inl e, st')
                | Inr logged \<Rightarrow> (Inr (), st'))))"

section \<open>The card: \<open>buildWidgetPayload\<close>\<close>

text \<open>Line 62 and line 63.\<close>

definition score_of :: "jsval \<Rightarrow> js_error + jsval" where
  "score_of data = bindE (js_get data ''score'') (\<lambda>s. Inr (js_or s (JNum (Fin 0))))"

definition scoreColor_of :: "host \<Rightarrow> jsval \<Rightarrow> js_error + string" where
  "scoreColor_of h score =
     bindE (js_gt h score 80) (\<lambda>high.
       if high then Inr ''success''
       else bindE (js_gt h score 60) (\<lambda>medium.
         Inr (if medium then ''warning'' else ''secondary'')))"

text \<open>Line 66 and line 67.\<close>

definition archetype_of :: "host \<Rightarrow> jsval \<Rightarrow> js_error + jsval" where
  "archetype_of h data =
     bindE (js_get data ''archetype'') (\<lambda>a. toUpperCase h (js_or a (JStr ''SIGNAL'')))"

definition lenses_of :: "jsval \<Rightarrow> js_error + jsval" where
  "lenses_of data = bindE (js_get data ''lenses'') (\<lambda>l. Inr (js_or l (JStr ''Tech, Social'')))"

text \<open>
  Lines 70 to 136: the object literal, with the nine expressions it embeds as arguments.
\<close>

definition card_tree ::
  "jsval \<Rightarrow> string \<Rightarrow> string \<Rightarrow> jsval \<Rightarrow> jsval \<Rightarrow> jsval \<Rightarrow> jsval \<Rightarrow> string \<Rightarrow> jsval \<Rightarrow> jsval" where
  "card_tree archetype score_label scoreColor title hook lenses mission insert_text sourceURL =
     JObj [
       (''type'', JStr ''Card''),
       (''size'', JStr ''lg''),
       (''children'', JArr [
         JObj [
           (''type'', JStr ''Col''), (''gap'', JNum (Fin 2)),
           (''children'', JArr [
             JObj [
               (''type'', JStr ''Row''), (''gap'', JNum (Fin 2)), (''align'', JStr ''center''),
               (''children'', JArr [
                 JObj [(''type'', JStr ''Icon''), (''name'', JStr ''sparkle''),
                       (''color'', JStr ''primary'')],
                 JObj [(''type'', JStr ''Title''), (''value'', JStr ''Nesta Signal Scout''),
                       (''size'', JStr ''sm'')],
                 JObj [(''type'', JStr ''Spacer'')],
                 JObj [(''type'', JStr ''Badge''), (''label'', JStr ''Pro''),
                       (''color'', JStr ''discovery'')]])],
             JObj [(''type'', JStr ''Text''),
                   (''value'', JStr ''Identify, rank, and stress-test innovation signals.''),
                   (''size'', JStr ''sm''), (''color'', JStr ''secondary'')]])],
         JObj [(''type'', JStr ''Divider'')],
         JObj [
           (''type'', JStr ''Col''), (''gap'', JNum (Fin 2)),
           (''children'', JArr [
             JObj [(''type'', JStr ''Divider''), (''flush'', JBool True)],
             JObj [
               (''type'', JStr ''Row''), (''align'', JStr ''center''),
               (''children'', JArr [
                 JObj [(''type'', JStr ''Caption''), (''value'', archetype),
                       (''size'', JStr ''sm''), (''color'', JStr ''tertiary'')],
                 JObj [(''type'', JStr ''Spacer'')],
                 JObj [(''type'', JStr ''Badge''), (''label'', JStr score_label),
                       (''color'', JStr scoreColor)]])],
             JObj [(''type'', JStr ''Title''), (''value'', title), (''size'', JStr ''md'')],
             JObj [(''type'', JStr ''Text''), (''value'', hook), (''size'', JStr ''md'')],
             JObj [
               (''type'', JStr ''Row''), (''gap'', JNum (Fin 1)),
               (''children'', JArr [
                 JObj [(''type'', JStr ''Icon''), (''name'', JStr ''tag''),
                       (''size'', JStr ''xs''), (''color'', JStr ''tertiary'')],
                 JObj [(''type'', JStr ''Caption''), (''value'', lenses),
                       (''size'', JStr ''sm''), (''color'', JStr ''secondary'')]])],
             JObj [
               (''type'', JStr ''Row''), (''gap'', JNum (Fin 2)), (''align'', JStr ''center''),
               (''children'', JArr [
                 JObj [(''type'', JStr ''Badge''), (''label'', mission),
                       (''color'', JStr ''info'')],
                 JObj [(''type'', JStr ''Spacer'')],
                 JObj [
                   (''type'', JStr ''Button''),
                   (''label'', JStr ''Use in chat''),
                   (''iconStart'', JStr ''write''),
                   (''size'', JStr ''sm''),
                   (''onClickAction'',
                      JObj [(''type'', JStr ''message.insert''),
                            (''payload'', JObj [(''text'', JStr insert_text)])])],
                 JObj [
                   (''type'', JStr ''Button''),
                   (''label'', JStr ''Source''),
                   (''variant'', JStr ''outline''),
                   (''size'', JStr ''sm''),
                   (''iconStart'', JStr ''external-link''),
                   (''onClickAction'',
                      JObj [(''type'', JStr ''open.url''),
                            (''payload'', JObj [(''url'', sourceURL)])])]])]])]])]"

text \<open>
  The two template literals, \<open>Score: ${score}/100\<close> and \<open>${data.title}: ${data.hook}\<close>.
\<close>

definition score_label_of :: "host \<Rightarrow> jsval \<Rightarrow> js_error + string" where
  "score_label_of h score = bindE (ToString h score) (\<lambda>s. Inr (''Score: '' @ s @ ''/100''))"

definition insert_text_of :: "host \<Rightarrow> jsval \<Rightarrow> jsval \<Rightarrow> js_error + string" where
  "insert_text_of h title hook =
     bindE (ToString h title) (\<lambda>t. bindE (ToString h hook) (\<lambda>k. Inr (t @ '': '' @ k)))"

text \<open>Lines 60 to 137, the expressions in the order the source evaluates them.\<close>

definition buildWidgetPayload :: "host \<Rightarrow> jsval \<Rightarrow> js_error + jsval" where
  "buildWidgetPayload h data =
     bindE (score_of data) (\<lambda>score.
     bindE (scoreColor_of h score) (\<lambda>scoreColor.
     bindE (archetype_of h data) (\<lambda>archetype.
     bindE (lenses_of data) (\<lambda>lenses.
     bindE (score_label_of h score) (\<lambda>score_label.
     bindE (js_get data ''title'') (\<lambda>title.
     bindE (js_get data ''hook'') (\<lambda>hook.
     bindE (js_get data ''mission'') (\<lambda>mission.
     bindE (insert_text_of h title hook) (\<lambda>insert_text.
     bindE (js_get data ''sourceURL'') (\<lambda>sourceURL.
       Inr (card_tree archetype score_label scoreColor title hook lenses mission
              insert_text sourceURL)))))))))))"

section \<open>The chat route: \<open>app.post('/api/chat')\<close>\<close>

text \<open>
  What a route sends: \<open>res.json(v)\<close> and \<open>res.status(c).json(v)\<close> with the value handed to
  \<open>json\<close>, \<open>res.status(c).send(text)\<close>, and \<open>res.download\<close> with the rows of the file.
\<close>

datatype http_response =
    Json nat jsval
  | SendText nat string
  | Download "csv_row list"

fun status_code :: "http_response \<Rightarrow> nat" where
  "status_code (Json c v) = c"
| "status_code (SendText c t) = c"
| "status_code (Download rows) = 200"

text \<open>Lines 144 to 149.\<close>

definition userMessage_of :: "host \<Rightarrow> jsval \<Rightarrow> js_error + jsval" where
  "userMessage_of h body =
     bindE (js_get body ''messages'') (\<lambda>messages.
     bindE (if ToBoolean messages
            then bindE (js_get messages ''length'') (\<lambda>len. js_gt h len 0)
            else Inr False) (\<lambda>nonempty.
       if nonempty then
         bindE (js_get messages ''length'') (\<lambda>len.
         bindE (js_minus h len 1) (\<lambda>i.
         bindE (js_at h messages i) (\<lambda>last_message.
           js_get last_message ''content'')))
       else
         bindE (js_get body ''text'') (\<lambda>text.
           Inr (if ToBoolean text then text else JStr ''Find top signals''))))"

text \<open>
  Lines 172 to 176: the tool call that triggers the widget, if the run asks for one.
  \<open>Inr None\<close> is the case in which the source goes on to wait.
\<close>

definition display_action :: "run_status \<Rightarrow> js_error + tool_call option" where
  "display_action runStatus =
     (if status runStatus = ''requires_action'' then
        (case required_action runStatus of
           None \<Rightarrow> Inl (cannot_read ''null'' ''submit_tool_outputs'')
         | Some toolCalls \<Rightarrow>
             Inr (find (\<lambda>tc. fn_name tc = ''display_signal_card'') toolCalls))
      else Inr None)"

text \<open>Lines 179 to 190: parse, save, answer with the card. No tool output is submitted.\<close>

definition show_card :: "host \<Rightarrow> tool_call \<Rightarrow> state \<Rightarrow> (js_error + http_response) \<times> state" where
  "show_card h displayAction st =
     (case JSON_parse h (fn_arguments displayAction) of
        Inl e \<Rightarrow> (Inl e, st)
      | Inr signalData \<Rightarrow>
          (case logSignalToCsv h signalData st of
             (Inl e, st') \<Rightarrow> (Inl e, st')
           | (Inr u, st') \<Rightarrow>
               (case buildWidgetPayload h signalData of
                  Inl e \<Rightarrow> (Inl e, st')
                | Inr payload \<Rightarrow> (Inr (Json 200 payload), st'))))"

text \<open>
  One pass through the body of the while loop either leaves the handler, by \<open>return\<close> or
  by \<open>throw\<close>, or ends with a new run status for the next test of the loop condition.
\<close>

datatype step =
    Finish "(js_error + http_response) \<times> state"
  | Again run_status state

text \<open>Lines 194 to 196: \<open>k\<close> counts the calls of \<open>runs.retrieve\<close> made so far.\<close>

definition wait_and_retrieve :: "host \<Rightarrow> run \<Rightarrow> nat \<Rightarrow> state \<Rightarrow> step" where
  "wait_and_retrieve h r k st =
     (let st' = st\<lparr>calls := calls st @ [Sleep 1000, RunsRetrieve (thread_id r) (run_id r)]\<rparr> in
      case retrieve h (thread_id r) (run_id r) k of
        Inl e \<Rightarrow> Finish (Inl e, st')
      | Inr runStatus \<Rightarrow> Again runStatus st')"

text \<open>Lines 166 to 196.\<close>

definition loop_body :: "host \<Rightarrow> run \<Rightarrow> nat \<Rightarrow> run_status \<Rightarrow> state \<Rightarrow> step" where
  "loop_body h r k runStatus st =
     (if status runStatus = ''failed'' \<or> status runStatus = ''cancelled''
         \<or> status runStatus = ''expired''
      then Finish (Inl (Error (''Run failed with status: '' @ status runStatus)), st)
      else
        (case display_action runStatus of
           Inl e \<Rightarrow> Finish (Inl e, st)
         | Inr (Some displayAction) \<Rightarrow> Finish (show_card h displayAction st)
         | Inr None \<Rightarrow> wait_and_retrieve h r k st))"

text \<open>Lines 201 to 207: the text reply, \<open>messages.data[0].content[0].text.value\<close>.\<close>

definition text_completion :: "host \<Rightarrow> run \<Rightarrow> state \<Rightarrow> (js_error + http_response) \<times> state" where
  "text_completion h r st =
     (bindE (messages_list h (thread_id r)) (\<lambda>messages.
      bindE (js_get messages ''data'') (\<lambda>d.
      bindE (js_at h d (Fin 0)) (\<lambda>m0.
      bindE (js_get m0 ''content'') (\<lambda>c.
      bindE (js_at h c (Fin 0)) (\<lambda>c0.
      bindE (js_get c0 ''text'') (\<lambda>t.
      bindE (js_get t ''value'') (\<lambda>lastMsg.
        Inr (Json 200 (JObj [(''role'', JStr ''assistant''), (''content'', lastMsg)]))))))))),
      st\<lparr>calls := calls st @ [MessagesList (thread_id r)]\<rparr>)"

text \<open>
  Lines 165 to 207. The loop has no bound: \<open>None\<close> is the handler that polls forever.
\<close>

partial_function (option) poll_loop ::
  "host \<Rightarrow> run \<Rightarrow> nat \<Rightarrow> run_status \<Rightarrow> state \<Rightarrow> ((js_error + http_response) \<times> state) option" where
  "poll_loop h r k runStatus st =
     (if status runStatus \<noteq> ''completed'' then
        (case loop_body h r k runStatus st of
           Finish out \<Rightarrow> Some out
         | Again runStatus' st' \<Rightarrow> poll_loop h r (Suc k) runStatus' st')
      else Some (text_completion h r st))"

text \<open>
  Lines 142 to 207, the body of the try block. \<open>console.log\<close> of line 151 converts the
  message to text, which can throw.
\<close>

definition try_block ::
  "host \<Rightarrow> jsval \<Rightarrow> state \<Rightarrow> ((js_error + http_response) \<times> state) option" where
  "try_block h body st =
     (case userMessage_of h body of
        Inl e \<Rightarrow> Some (Inl e, st)
      | Inr userMessage \<Rightarrow>
          (case ToString h userMessage of
             Inl e \<Rightarrow> Some (Inl e, st)
           | Inr logged \<Rightarrow>
               (let st1 = st\<lparr>calls := calls st @ [CreateAndRun userMessage]\<rparr> in
                case createAndRun h userMessage of
                  Inl e \<Rightarrow> Some (Inl e, st1)
                | Inr r \<Rightarrow>
                    (let st2 = st1\<lparr>calls := calls st1 @ [RunsRetrieve (thread_id r) (run_id r)]\<rparr> in
                     case retrieve h (thread_id r) (run_id r) 0 of
                       Inl e \<Rightarrow> Some (Inl e, st2)
                     | Inr runStatus \<Rightarrow> poll_loop h r 1 runStatus st2))))"

text \<open>Lines 209 to 212: the catch block.\<close>

definition catch_error :: "js_error \<Rightarrow> http_response" where
  "catch_error error = Json 500 (JObj [(''error'', JStr (message error))])"

definition respond :: "(js_error + http_response) \<times> state \<Rightarrow> http_response \<times> state" where
  "respond out = (case fst out of Inl error \<Rightarrow> catch_error error | Inr res \<Rightarrow> res, snd out)"

definition chat_handler :: "host \<Rightarrow> jsval \<Rightarrow> state \<Rightarrow> (http_response \<times> state) option" where
  "chat_handler h body st = map_option respond (try_block h body st)"

section \<open>The download route: \<open>app.get('/api/download_csv')\<close>\<close>

definition download_csv :: "state \<Rightarrow> http_response" where
  "download_csv st =
     (case csv_file st of
        Some rows \<Rightarrow> Download rows
      | None \<Rightarrow> SendText 404 ''No signals have been logged yet.'')"

section \<open>Reading a card, following a request, counting appends\<close>

text \<open>The nodes of the card that depend on the record, by their place in the tree.\<close>

definition field_of :: "string \<Rightarrow> jsval \<Rightarrow> jsval" where
  "field_of k v = (case v of JObj kvs \<Rightarrow> own_property kvs k | _ \<Rightarrow> JUndefined)"

definition child :: "nat \<Rightarrow> jsval \<Rightarrow> jsval" where
  "child i v =
     (case field_of ''children'' v of
        JArr xs \<Rightarrow> if i < length xs then xs ! i else JUndefined
      | _ \<Rightarrow> JUndefined)"

definition archetype_caption :: "jsval \<Rightarrow> jsval" where
  "archetype_caption payload = child 0 (child 1 (child 2 payload))"

definition score_badge :: "jsval \<Rightarrow> jsval" where
  "score_badge payload = child 2 (child 1 (child 2 payload))"

definition title_node :: "jsval \<Rightarrow> jsval" where
  "title_node payload = child 2 (child 2 payload)"

definition hook_node :: "jsval \<Rightarrow> jsval" where
  "hook_node payload = child 3 (child 2 payload)"

definition lenses_caption :: "jsval \<Rightarrow> jsval" where
  "lenses_caption payload = child 1 (child 4 (child 2 payload))"

definition mission_badge :: "jsval \<Rightarrow> jsval" where
  "mission_badge payload = child 0 (child 5 (child 2 payload))"

definition insert_button_payload :: "jsval \<Rightarrow> jsval" where
  "insert_button_payload payload =
     field_of ''payload'' (field_of ''onClickAction'' (child 2 (child 5 (child 2 payload))))"

definition source_button_payload :: "jsval \<Rightarrow> jsval" where
  "source_button_payload payload =
     field_of ''payload'' (field_of ''onClickAction'' (child 3 (child 5 (child 2 payload))))"

text \<open>
  \<open>polled h body st0 r k runStatus st\<close>: serving the request \<open>body\<close> from the state \<open>st0\<close>,
  the handler stands at the test of the loop condition with \<open>runStatus\<close> in hand, after
  \<open>k\<close> calls of \<open>runs.retrieve\<close> on the run \<open>r\<close>, in the state \<open>st\<close>.
\<close>

inductive polled :: "host \<Rightarrow> jsval \<Rightarrow> state \<Rightarrow> run \<Rightarrow> nat \<Rightarrow> run_status \<Rightarrow> state \<Rightarrow> bool"
  for h :: host and body :: jsval and st0 :: state where
  first_poll:
    "userMessage_of h body = Inr userMessage \<Longrightarrow>
     ToString h userMessage = Inr logged \<Longrightarrow>
     createAndRun h userMessage = Inr r \<Longrightarrow>
     retrieve h (thread_id r) (run_id r) 0 = Inr runStatus \<Longrightarrow>
     polled h body st0 r 1 runStatus
       (st0\<lparr>calls := calls st0 @ [CreateAndRun userMessage]
                                 @ [RunsRetrieve (thread_id r) (run_id r)]\<rparr>)"
| next_poll:
    "polled h body st0 r k runStatus st \<Longrightarrow>
     status runStatus \<noteq> ''completed'' \<Longrightarrow>
     loop_body h r k runStatus st = Again runStatus' st' \<Longrightarrow>
     polled h body st0 r (Suc k) runStatus' st'"

text \<open>
  The polls of a request can be enumerated from the host, the body and the state the
  request starts in.
\<close>

code_pred (modes: i \<Rightarrow> i \<Rightarrow> i \<Rightarrow> o \<Rightarrow> o \<Rightarrow> o \<Rightarrow> o \<Rightarrow> bool) polled .

text \<open>
  \<open>logSignalToCsv\<close> is the only writer of the log file. \<open>appended st0 n st\<close>: the server
  has gone from the state \<open>st0\<close> to the state \<open>st\<close> by calls of \<open>logSignalToCsv\<close>, of
  which \<open>n\<close> returned without throwing, and by steps that leave the file alone.
\<close>

inductive appended :: "state \<Rightarrow> nat \<Rightarrow> state \<Rightarrow> bool" for st0 :: state where
  no_append: "appended st0 0 st0"
| append_done:
    "appended st0 n st \<Longrightarrow> logSignalToCsv h data st = (Inr (), st') \<Longrightarrow>
     appended st0 (Suc n) st'"
| append_thrown:
    "appended st0 n st \<Longrightarrow> logSignalToCsv h data st = (Inl e, st') \<Longrightarrow>
     appended st0 n st'"
| file_kept:
    "appended st0 n st \<Longrightarrow> csv_file st' = csv_file st \<Longrightarrow> appended st0 n st'"

subsection \<open>A host to run the handler on\<close>

text \<open>
  A host for worked examples: \<open>parse\<close> is \<open>JSON.parse\<close> on the texts an example uses and
  \<open>answers k\<close> the agent's answer to the \<open>k\<close>-th status poll. No example reaches one of
  the engine's conversions of doubles or of text outside ASCII, which are left trivial.
\<close>

definition example_run :: run where
  "example_run = \<lparr>thread_id = ''thread_1'', run_id = ''run_1''\<rparr>"

definition example_host ::
  "(string \<Rightarrow> js_error + jsval) \<Rightarrow> (nat \<Rightarrow> js_error + run_status) \<Rightarrow> host" where
  "example_host parse answers =
     \<lparr>JSON_parse = parse,
      StringToNumber = (\<lambda>s. NaN),
      Number_toString = (\<lambda>n. []),
      Number_subtract = (\<lambda>a b. NaN),
      String_toUpperCase = (\<lambda>s. s),
      Date_now_toISOString = ''2024-05-01T12:00:00.000Z'',
      writeFile_fault = None,
      createAndRun = (\<lambda>userMessage. Inr example_run),
      retrieve = (\<lambda>t r k. answers k),
      messages_list = (\<lambda>t. Inl (APIError ''Connection error.''))\<rparr>"

definition in_progress :: run_status where
  "in_progress = \<lparr>status = ''in_progress'', required_action = None\<rparr>"

definition requires_action :: "tool_call list \<Rightarrow> run_status" where
  "requires_action toolCalls = \<lparr>status = ''requires_action'', required_action = Some toolCalls\<rparr>"

definition display_signal_card :: "string \<Rightarrow> tool_call" where
  "display_signal_card args =
     \<lparr>call_id = ''call_1'', fn_name = ''display_signal_card'', fn_arguments = args\<rparr>"

definition fresh :: state where
  "fresh = \<lparr>csv_file = None, calls = []\<rparr>"

definition header_row :: csv_row where
  "header_row = map snd CSV_header"

text \<open>\<open>JSON.parse\<close> on the argument texts of the examples; any other text here is not JSON.\<close>

definition example_parse :: "string \<Rightarrow> js_error + jsval" where
  \<open>example_parse text =
     (if text = ''{}'' then Inr (JObj [])
      else if text = ''{"score":150}'' then Inr (JObj [(''score'', JNum (Fin 150))])
      else if text = ''{"archetype":5}'' then Inr (JObj [(''archetype'', JNum (Fin 5))])
      else if text = ''{"title":"X","score":85,"hook":"H","sourceURL":"http://u"}''
      then Inr (JObj [(''title'', JStr ''X''), (''score'', JNum (Fin 85)),
                      (''hook'', JStr ''H''), (''sourceURL'', JStr ''http://u'')])
      else Inl (SyntaxError ''Unexpected token''))\<close>

text \<open>The argument text of the end-to-end example of the specification.\<close>

definition spec_example_args :: string where
  \<open>spec_example_args = ''{"title":"X","score":85,"hook":"H","sourceURL":"http://u"}''\<close>


definition score_only :: "rat \<Rightarrow> jsval" where
  "score_only q = JObj [(''score'', JNum (Fin q))]"

text \<open>
  Agents for the examples: one that is still working at every poll, one whose run fails
  at the third poll, one that asks for the card with the given argument text, and one
  that asks for another tool at every poll.
\<close>

definition run_failed :: run_status where
  "run_failed = \<lparr>status = ''failed'', required_action = None\<rparr>"

definition idle_host :: host where
  "idle_host = example_host example_parse (\<lambda>k. Inr in_progress)"

definition failed_host :: host where
  "failed_host = example_host example_parse (\<lambda>k. if k < 2 then Inr in_progress else Inr run_failed)"

definition card_host :: "string \<Rightarrow> host" where
  "card_host args =
     example_host example_parse (\<lambda>k. Inr (requires_action [display_signal_card args]))"

definition other_tool :: tool_call where
  "other_tool = \<lparr>call_id = ''call_0'', fn_name = ''get_weather'', fn_arguments = ''{}''\<rparr>"

definition other_tool_host :: host where
  "other_tool_host = example_host example_parse (\<lambda>k. Inr (requires_action [other_tool]))"

text \<open>
  A run status on which the loop neither leaves the handler nor ends: not \<open>completed\<close>, not
  one of the three failures, and no tool call that triggers the widget.
\<close>

definition keeps_polling :: "run_status \<Rightarrow> bool" where
  "keeps_polling runStatus =
     (status runStatus \<noteq> ''completed'' \<and> status runStatus \<noteq> ''failed''
      \<and> status runStatus \<noteq> ''cancelled'' \<and> status runStatus \<noteq> ''expired''
      \<and> display_action runStatus = Inr None)"

text \<open>The status code of the answer and the log file after it, for a request that ended.\<close>

definition summary :: "(http_response \<times> state) option \<Rightarrow> (nat \<times> csv_row list option) option" where
  "summary out = map_option (\<lambda>(res, st). (status_code res, csv_file st)) out"

text \<open>
  A host whose agent asks for another tool at the first retrieve and rejects every later
  retrieve.
\<close>

definition refetch_fails_host :: host where
  "refetch_fails_host =
     example_host example_parse
       (\<lambda>k. if k = 0 then Inr (requires_action [other_tool])
            else Inl (APIError ''Connection error.''))"

text \<open>
  A record whose field, where it has one, is of the type that the tool's schema gives it,
  and a record with every field present.
\<close>

definition string_or_absent :: "(string \<times> jsval) list \<Rightarrow> string \<Rightarrow> bool" where
  "string_or_absent kvs k =
     (case map_of kvs k of None \<Rightarrow> True | Some (JStr s) \<Rightarrow> True | Some _ \<Rightarrow> False)"

definition number_or_absent :: "(string \<times> jsval) list \<Rightarrow> string \<Rightarrow> bool" where
  "number_or_absent kvs k =
     (case map_of kvs k of None \<Rightarrow> True | Some (JNum n) \<Rightarrow> True | Some _ \<Rightarrow> False)"

definition full_record :: "(string \<times> jsval) list" where
  "full_record =
     [(''title'', JStr ''T''), (''score'', JNum (Fin 85)), (''mission'', JStr ''M''),
      (''archetype'', JStr ''trend''), (''hook'', JStr ''H''),
      (''sourceURL'', JStr ''http://u''), (''lenses'', JStr ''Tech'')]"

section \<open>Basic facts\<close>

lemma bindE_Inl [simp]: "bindE (Inl e) f = Inl e"
  by (simp add: bindE_def)

lemma bindE_Inr [simp]: "bindE (Inr x) f = f x"
  by (simp add: bindE_def)

lemma bindE_eq_Inr: "bindE m f = Inr y \<longleftrightarrow> (\<exists>x. m = Inr x \<and> f x = Inr y)"
  by (cases m) simp_all

lemma js_get_JObj [simp]: "js_get (JObj kvs) k = Inr (own_property kvs k)"
  by (simp add: js_get_def)

lemma own_property_absent: "map_of kvs k = None \<Longrightarrow> own_property kvs k = JUndefined"
  by (simp add: own_property_def)


lemma js_or_undefined [simp]: "js_or JUndefined b = b"
  by (simp add: js_or_def)

lemmas card_nodes =
  archetype_caption_def score_badge_def title_node_def hook_node_def lenses_caption_def
  mission_badge_def insert_button_payload_def source_button_payload_def
  child_def field_of_def own_property_def

lemma score_badge_card_tree:
  "score_badge (card_tree a sl sc t hk l m it u) =
     JObj [(''type'', JStr ''Badge''), (''label'', JStr sl), (''color'', JStr sc)]"
  by (simp add: card_tree_def card_nodes)

lemma varying_nodes_card_tree:
  "field_of ''value'' (archetype_caption (card_tree a sl sc t hk l m it u)) = a"
  "field_of ''value'' (title_node (card_tree a sl sc t hk l m it u)) = t"
  "field_of ''value'' (hook_node (card_tree a sl sc t hk l m it u)) = hk"
  "field_of ''value'' (lenses_caption (card_tree a sl sc t hk l m it u)) = l"
  "field_of ''label'' (mission_badge (card_tree a sl sc t hk l m it u)) = m"
  "field_of ''text'' (insert_button_payload (card_tree a sl sc t hk l m it u)) = JStr it"
  "field_of ''url'' (source_button_payload (card_tree a sl sc t hk l m it u)) = u"
  by (simp_all add: card_tree_def card_nodes)

lemma buildWidgetPayload_Inr:
  assumes "buildWidgetPayload h data = Inr payload"
  obtains score scoreColor archetype lenses score_label title hook mission insert_text sourceURL
  where "score_of data = Inr score" "scoreColor_of h score = Inr scoreColor"
    "archetype_of h data = Inr archetype" "lenses_of data = Inr lenses"
    "score_label_of h score = Inr score_label" "js_get data ''title'' = Inr title"
    "js_get data ''hook'' = Inr hook" "js_get data ''mission'' = Inr mission"
    "insert_text_of h title hook = Inr insert_text" "js_get data ''sourceURL'' = Inr sourceURL"
    "payload = card_tree archetype score_label scoreColor title hook lenses mission insert_text sourceURL"
  using assms unfolding buildWidgetPayload_def bindE_eq_Inr by blast



text \<open>Unfolding the model on a concrete input.\<close>

lemmas eval_js =
  js_gt_def js_or_def own_property_def toUpperCase_def upper_char_def is_ascii_def
  num_to_string_def
  is_integer_def show_nat.simps digit_char_def

lemmas eval_card =
  buildWidgetPayload_def score_of_def scoreColor_of_def archetype_of_def lenses_of_def
  score_label_of_def insert_text_of_def

lemmas eval_store =
  logSignalToCsv_def signal_record_def writeRecords_def CSV_header_def stringify_field_def

lemmas eval_handler =
  chat_handler_def try_block_def userMessage_of_def poll_loop.simps loop_body_def
  display_action_def show_card_def wait_and_retrieve_def text_completion_def respond_def
  catch_error_def

lemmas eval_host =
  example_host_def example_run_def example_parse_def in_progress_def requires_action_def
  display_signal_card_def fresh_def header_row_def run_failed_def idle_host_def
  failed_host_def card_host_def other_tool_def other_tool_host_def spec_example_args_def



subsection \<open>The log\<close>

lemma truthy_not_empty:
  "ToBoolean v \<Longrightarrow> v \<noteq> JUndefined \<and> v \<noteq> JNull \<and> v \<noteq> JStr []"
  by (cases v) simp_all


lemma stringify_field_truthy: "ToBoolean v \<Longrightarrow> stringify_field h v = ToString h v"
  using truthy_not_empty [of v] by (simp add: stringify_field_def)

lemma signal_record_Inr:
  assumes "signal_record h data = Inr record"
  obtains title score mission archetype hook sourceURL where
    "js_get data ''title'' = Inr title" "js_get data ''score'' = Inr score"
    "js_get data ''mission'' = Inr mission" "js_get data ''archetype'' = Inr archetype"
    "js_get data ''hook'' = Inr hook" "js_get data ''sourceURL'' = Inr sourceURL"
    "record = [(''timestamp'', JStr (Date_now_toISOString h)),
            (''title'', js_or title (JStr ''Unknown'')),
            (''score'', js_or score (JNum (Fin 0))),
            (''mission'', js_or mission (JStr ''Adj'')),
            (''archetype'', js_or archetype (JStr ''Signal'')),
            (''hook'', js_or hook (JStr [])),
            (''sourceURL'', js_or sourceURL (JStr []))]"
  using assms unfolding signal_record_def bindE_eq_Inr by blast

lemma signal_record_JObj:
  "signal_record h (JObj kvs) =
     Inr [(''timestamp'', JStr (Date_now_toISOString h)),
          (''title'', js_or (own_property kvs ''title'') (JStr ''Unknown'')),
          (''score'', js_or (own_property kvs ''score'') (JNum (Fin 0))),
          (''mission'', js_or (own_property kvs ''mission'') (JStr ''Adj'')),
          (''archetype'', js_or (own_property kvs ''archetype'') (JStr ''Signal'')),
          (''hook'', js_or (own_property kvs ''hook'') (JStr [])),
          (''sourceURL'', js_or (own_property kvs ''sourceURL'') (JStr []))]"
  by (simp add: signal_record_def)

lemma signal_record_keys:
  "signal_record h data = Inr record \<Longrightarrow> map fst record = map fst CSV_header"
  by (erule signal_record_Inr) (simp add: CSV_header_def)


lemma stringify_record_length:
  "stringify_record h fs record = Inr row \<Longrightarrow> length row = length fs"
  by (induction fs arbitrary: row) (auto simp: bindE_eq_Inr)

lemma stringify_records_single:
  "stringify_records h fs [record] = Inr rows \<longleftrightarrow>
     (\<exists>row. stringify_record h fs record = Inr row \<and> rows = [row])"
  by (auto simp: bindE_eq_Inr)

lemma writeRecords_calls: "writeRecords h w records st = (res, st') \<Longrightarrow> calls st' = calls st"
  by (auto simp: writeRecords_def split: sum.splits option.splits)

lemma writeRecords_thrown: "writeRecords h w records st = (Inl e, st') \<Longrightarrow> st' = st"
  by (auto simp: writeRecords_def split: sum.splits option.splits)

lemma writeRecords_single:
  assumes "writeRecords h \<lparr>header = CSV_header, append = (csv_file st \<noteq> None)\<rparr> [rcd] st = (Inr u, st')"
  shows "\<exists>row. stringify_record h CSV_header rcd = Inr row \<and> writeFile_fault h = None \<and>
    st' = st\<lparr>csv_file := Some ((case csv_file st of None \<Rightarrow> [header_row] | Some rows \<Rightarrow> rows) @ [row])\<rparr>"
proof (cases "stringify_record h CSV_header rcd")
  case (Inl e)
  with assms show ?thesis by (simp add: writeRecords_def)
next
  case (Inr row)
  with assms show ?thesis
    by (cases "writeFile_fault h"; cases "csv_file st") (auto simp: writeRecords_def header_row_def)
qed

lemma title_logged:
  assumes "signal_record h data = Inr record" "stringify_record h CSV_header record = Inr row"
  shows "\<exists>logged. ToString h (own_property record ''title'') = Inr logged"
  using assms(1)
proof (rule signal_record_Inr)
  fix title score mission archetype hook sourceURL
  assume r: "record = [(''timestamp'', JStr (Date_now_toISOString h)),
            (''title'', js_or title (JStr ''Unknown'')),
            (''score'', js_or score (JNum (Fin 0))),
            (''mission'', js_or mission (JStr ''Adj'')),
            (''archetype'', js_or archetype (JStr ''Signal'')),
            (''hook'', js_or hook (JStr [])),
            (''sourceURL'', js_or sourceURL (JStr []))]"
  have t: "own_property record ''title'' = js_or title (JStr ''Unknown'')"
    by (simp add: r own_property_def)
  have "ToBoolean (js_or title (JStr ''Unknown''))"
    by (simp add: js_or_def)
  then have "stringify_field h (own_property record ''title'') = ToString h (own_property record ''title'')"
    by (simp add: t stringify_field_truthy)
  moreover from assms(2) obtain c where "stringify_field h (own_property record ''title'') = Inr c"
    by (auto simp: CSV_header_def bindE_eq_Inr)
  ultimately show ?thesis by metis
qed

lemma logSignalToCsv_thrown:
  assumes "logSignalToCsv h data st = (Inl e, st')"
  shows "st' = st"
proof (cases "signal_record h data")
  case (Inl e')
  with assms show ?thesis by (simp add: logSignalToCsv_def)
next
  case (Inr rcd)
  obtain res st1 where w: "writeRecords h \<lparr>header = CSV_header, append = (csv_file st \<noteq> None)\<rparr> [rcd] st = (res, st1)"
    by (cases "writeRecords h \<lparr>header = CSV_header, append = (csv_file st \<noteq> None)\<rparr> [rcd] st")
  show ?thesis
  proof (cases res)
    case (Inl e')
    with w have "st1 = st" by (simp add: writeRecords_thrown)
    with assms Inr w Inl show ?thesis by (simp add: logSignalToCsv_def)
  next
    case (Inr u)
    with w obtain row where "stringify_record h CSV_header rcd = Inr row"
      using writeRecords_single by blast
    with \<open>signal_record h data = Inr rcd\<close> obtain logged
      where "ToString h (own_property rcd ''title'') = Inr logged"
      using title_logged by blast
    with assms \<open>signal_record h data = Inr rcd\<close> w Inr show ?thesis
      by (simp add: logSignalToCsv_def)
  qed
qed

lemma logSignalToCsv_done:
  assumes "logSignalToCsv h data st = (Inr u, st')"
  obtains rcd row where "signal_record h data = Inr rcd"
    "stringify_record h CSV_header rcd = Inr row"
    "writeFile_fault h = None"
    "st' = st\<lparr>csv_file := Some ((case csv_file st of None \<Rightarrow> [header_row] | Some rows \<Rightarrow> rows) @ [row])\<rparr>"
proof (cases "signal_record h data")
  case (Inl e)
  with assms show ?thesis by (simp add: logSignalToCsv_def)
next
  case (Inr rcd)
  obtain res st1 where w: "writeRecords h \<lparr>header = CSV_header, append = (csv_file st \<noteq> None)\<rparr> [rcd] st = (res, st1)"
    by (cases "writeRecords h \<lparr>header = CSV_header, append = (csv_file st \<noteq> None)\<rparr> [rcd] st")
  show ?thesis
  proof (cases res)
    case (Inl e)
    with assms Inr w show ?thesis by (simp add: logSignalToCsv_def)
  next
    case (Inr u')
    with w obtain row where row: "stringify_record h CSV_header rcd = Inr row"
      "writeFile_fault h = None"
      "st1 = st\<lparr>csv_file := Some ((case csv_file st of None \<Rightarrow> [header_row] | Some rows \<Rightarrow> rows) @ [row])\<rparr>"
      using writeRecords_single by blast
    from assms \<open>signal_record h data = Inr rcd\<close> w Inr have "st' = st1"
      by (auto simp: logSignalToCsv_def split: sum.splits)
    with row \<open>signal_record h data = Inr rcd\<close> that show ?thesis by blast
  qed
qed


section \<open>The card renderer\<close>



section \<open>The polling loop and the claims about a request\<close>

subsection \<open>The polling loop\<close>

lemma loop_body_Again:
  assumes "loop_body h r k runStatus st = Again runStatus' st'"
  shows "retrieve h (thread_id r) (run_id r) k = Inr runStatus' \<and>
         st' = st\<lparr>calls := calls st @ [Sleep 1000, RunsRetrieve (thread_id r) (run_id r)]\<rparr> \<and>
         display_action runStatus = Inr None"
  using assms
  by (auto simp: loop_body_def wait_and_retrieve_def Let_def split: if_splits sum.splits option.splits)

lemma poll_loop_Again:
  "status runStatus \<noteq> ''completed'' \<Longrightarrow> loop_body h r k runStatus st = Again runStatus' st' \<Longrightarrow>
   poll_loop h r k runStatus st = poll_loop h r (Suc k) runStatus' st'"
  by (subst poll_loop.simps) simp

lemma poll_loop_Finish:
  "status runStatus \<noteq> ''completed'' \<Longrightarrow> loop_body h r k runStatus st = Finish out \<Longrightarrow>
   poll_loop h r k runStatus st = Some out"
  by (subst poll_loop.simps) simp

lemma poll_loop_completed:
  "status runStatus = ''completed'' \<Longrightarrow> poll_loop h r k runStatus st = Some (text_completion h r st)"
  by (subst poll_loop.simps) simp

lemma polled_try_block:
  "polled h body st0 r k runStatus st \<Longrightarrow> try_block h body st0 = poll_loop h r k runStatus st"
proof (induction rule: polled.induct)
  case (first_poll userMessage logged r runStatus)
  then show ?case by (simp add: try_block_def Let_def)
next
  case (next_poll r k runStatus st runStatus' st')
  then show ?case by (simp add: poll_loop_Again)
qed

lemma polled_csv_file: "polled h body st0 r k runStatus st \<Longrightarrow> csv_file st = csv_file st0"
proof (induction rule: polled.induct)
  case (first_poll userMessage logged r runStatus)
  show ?case by simp
next
  case (next_poll r k runStatus st runStatus' st')
  from loop_body_Again [OF next_poll.hyps(3)] next_poll.IH show ?case by simp
qed

lemma concat_replicate_snoc: "concat (replicate n x) @ x = concat (replicate (Suc n) x)"
  by (induction n) simp_all

lemma polled_calls:
  "polled h body st0 r k runStatus st \<Longrightarrow>
   \<exists>userMessage. userMessage_of h body = Inr userMessage \<and> createAndRun h userMessage = Inr r \<and>
     calls st = calls st0 @ CreateAndRun userMessage # RunsRetrieve (thread_id r) (run_id r)
                  # concat (replicate (k - 1) [Sleep 1000, RunsRetrieve (thread_id r) (run_id r)])"
proof (induction rule: polled.induct)
  case (first_poll userMessage logged r runStatus)
  then show ?case by simp
next
  case (next_poll r k runStatus st runStatus' st')
  from next_poll.IH obtain userMessage where m: "userMessage_of h body = Inr userMessage"
    "createAndRun h userMessage = Inr r"
    "calls st = calls st0 @ CreateAndRun userMessage # RunsRetrieve (thread_id r) (run_id r)
                  # concat (replicate (k - 1) [Sleep 1000, RunsRetrieve (thread_id r) (run_id r)])"
    by blast
  have k: "0 < k" using next_poll.hyps(1) by (induction rule: polled.induct) simp_all
  then have rep: "concat (replicate (Suc k - 1) x) = concat (replicate (k - 1) x) @ x"
    for x :: "api_call list"
    using concat_replicate_snoc [of "k - 1" x] by simp
  from loop_body_Again [OF next_poll.hyps(3)] m show ?case
    by (intro exI [of _ userMessage]) (simp only: rep, simp)
qed

lemma logSignalToCsv_calls: "logSignalToCsv h data st = (res, st') \<Longrightarrow> calls st' = calls st"
  by (auto simp: logSignalToCsv_def Let_def split: sum.splits prod.splits dest: writeRecords_calls)

lemma chat_handler_thrown:
  "try_block h body st0 = Some (Inl e, st) \<Longrightarrow>
   chat_handler h body st0 = Some (Json 500 (JObj [(''error'', JStr (message e))]), st)"
  by (simp add: chat_handler_def respond_def catch_error_def)

lemma chat_handler_returned:
  "try_block h body st0 = Some (Inr res, st) \<Longrightarrow> chat_handler h body st0 = Some (res, st)"
  by (simp add: chat_handler_def respond_def)

text \<open>
  C5. When the handler stands at the loop test with a run status that is \<open>failed\<close>,
  \<open>cancelled\<close> or \<open>expired\<close>, at whatever poll of the request, it throws an error whose
  message carries that status, and the route answers with status 500 and the body
  \<open>{error: "Run failed with status: ..."}\<close>, a string that is not empty; the log is as
  the request found it. And whatever error the try block throws, the route answers 500
  with the error's message in the \<open>error\<close> field.
\<close>

theorem C5_run_failed:
  "(polled h body st0 r k runStatus st \<and>
    (status runStatus = ''failed'' \<or> status runStatus = ''cancelled'' \<or> status runStatus = ''expired'') \<longrightarrow>
      try_block h body st0 = Some (Inl (Error (''Run failed with status: '' @ status runStatus)), st) \<and>
      chat_handler h body st0 =
        Some (Json 500 (JObj [(''error'', JStr (''Run failed with status: '' @ status runStatus))]), st) \<and>
      ''Run failed with status: '' @ status runStatus \<noteq> [] \<and>
      csv_file st = csv_file st0) \<and>
   (try_block h body st0 = Some (Inl e, st1) \<longrightarrow>
      chat_handler h body st0 = Some (Json 500 (JObj [(''error'', JStr (message e))]), st1))"
proof (intro conjI impI)
  assume a: "polled h body st0 r k runStatus st \<and>
    (status runStatus = ''failed'' \<or> status runStatus = ''cancelled'' \<or> status runStatus = ''expired'')"
  then have p: "polled h body st0 r k runStatus st" by blast
  from a have nc: "status runStatus \<noteq> ''completed''" by auto
  from a have "loop_body h r k runStatus st =
      Finish (Inl (Error (''Run failed with status: '' @ status runStatus)), st)"
    by (auto simp: loop_body_def)
  with nc have "poll_loop h r k runStatus st =
      Some (Inl (Error (''Run failed with status: '' @ status runStatus)), st)"
    by (rule poll_loop_Finish)
  with p show t: "try_block h body st0 =
      Some (Inl (Error (''Run failed with status: '' @ status runStatus)), st)"
    by (simp add: polled_try_block)
  from chat_handler_thrown [OF t]
  show "chat_handler h body st0 =
        Some (Json 500 (JObj [(''error'', JStr (''Run failed with status: '' @ status runStatus))]), st)"
    by simp
  show "''Run failed with status: '' @ status runStatus \<noteq> []" by simp
  from p show "csv_file st = csv_file st0" by (rule polled_csv_file)
next
  assume "try_block h body st0 = Some (Inl e, st1)"
  then show "chat_handler h body st0 = Some (Json 500 (JObj [(''error'', JStr (message e))]), st1)"
    by (rule chat_handler_thrown)
qed

lemma failed_host_polled:
  "polled failed_host (JObj []) fresh example_run 3 run_failed
     \<lparr>csv_file = None,
      calls = [CreateAndRun (JStr ''Find top signals''), RunsRetrieve ''thread_1'' ''run_1'',
               Sleep 1000, RunsRetrieve ''thread_1'' ''run_1'',
               Sleep 1000, RunsRetrieve ''thread_1'' ''run_1'']\<rparr>"
proof -
  have p1: "polled failed_host (JObj []) fresh example_run 1 in_progress
      (fresh\<lparr>calls := calls fresh @ [CreateAndRun (JStr ''Find top signals'')]
                 @ [RunsRetrieve (thread_id example_run) (run_id example_run)]\<rparr>)"
    by (rule first_poll [where logged = "''Find top signals''"])
       (simp_all add: userMessage_of_def eval_host eval_js)
  have p2: "polled failed_host (JObj []) fresh example_run (Suc 1) in_progress
      \<lparr>csv_file = None,
      calls = [CreateAndRun (JStr ''Find top signals''), RunsRetrieve ''thread_1'' ''run_1'',
               Sleep 1000, RunsRetrieve ''thread_1'' ''run_1'']\<rparr>"
    by (rule next_poll [OF p1])
       (simp_all add: loop_body_def display_action_def wait_and_retrieve_def eval_host)
  have p3: "polled failed_host (JObj []) fresh example_run (Suc (Suc 1)) run_failed
     \<lparr>csv_file = None,
      calls = [CreateAndRun (JStr ''Find top signals''), RunsRetrieve ''thread_1'' ''run_1'',
               Sleep 1000, RunsRetrieve ''thread_1'' ''run_1'',
               Sleep 1000, RunsRetrieve ''thread_1'' ''run_1'']\<rparr>"
    by (rule next_poll [OF p2])
       (simp_all add: loop_body_def display_action_def wait_and_retrieve_def eval_host)
  then show ?thesis by (simp add: eval_nat_numeral)
qed


theorem C5_run_failed_witness:
  "polled failed_host (JObj []) fresh example_run 3 run_failed
     \<lparr>csv_file = None,
      calls = [CreateAndRun (JStr ''Find top signals''), RunsRetrieve ''thread_1'' ''run_1'',
               Sleep 1000, RunsRetrieve ''thread_1'' ''run_1'',
               Sleep 1000, RunsRetrieve ''thread_1'' ''run_1'']\<rparr> \<and>
   status run_failed = ''failed'' \<and>
   try_block failed_host (JObj []) fresh =
     Some (Inl (Error ''Run failed with status: failed''),
       \<lparr>csv_file = None,
        calls = [CreateAndRun (JStr ''Find top signals''), RunsRetrieve ''thread_1'' ''run_1'',
               Sleep 1000, RunsRetrieve ''thread_1'' ''run_1'',
               Sleep 1000, RunsRetrieve ''thread_1'' ''run_1'']\<rparr>) \<and>
   chat_handler failed_host (JObj []) fresh =
     Some (Json 500 (JObj [(''error'', JStr ''Run failed with status: failed'')]),
       \<lparr>csv_file = None,
        calls = [CreateAndRun (JStr ''Find top signals''), RunsRetrieve ''thread_1'' ''run_1'',
               Sleep 1000, RunsRetrieve ''thread_1'' ''run_1'',
               Sleep 1000, RunsRetrieve ''thread_1'' ''run_1'']\<rparr>)"
  using failed_host_polled
    C5_run_failed [of failed_host "JObj []" fresh example_run 3 run_failed
      "\<lparr>csv_file = None,
        calls = [CreateAndRun (JStr ''Find top signals''), RunsRetrieve ''thread_1'' ''run_1'',
               Sleep 1000, RunsRetrieve ''thread_1'' ''run_1'',
               Sleep 1000, RunsRetrieve ''thread_1'' ''run_1'']\<rparr>"
      "Error ''Run failed with status: failed''"
      "\<lparr>csv_file = None,
        calls = [CreateAndRun (JStr ''Find top signals''), RunsRetrieve ''thread_1'' ''run_1'',
               Sleep 1000, RunsRetrieve ''thread_1'' ''run_1'',
               Sleep 1000, RunsRetrieve ''thread_1'' ''run_1'']\<rparr>"]
  by (simp add: run_failed_def)

lemma display_action_unmatched:
  assumes "status runStatus = ''requires_action''" "required_action runStatus = Some toolCalls"
    "\<forall>tc \<in> set toolCalls. fn_name tc \<noteq> ''display_signal_card''"
  shows "display_action runStatus = Inr None"
  using assms by (simp add: display_action_def find_None_iff)

lemma keeps_polling_loop_body:
  "keeps_polling runStatus \<Longrightarrow> loop_body h r k runStatus st = wait_and_retrieve h r k st"
  by (simp add: keeps_polling_def loop_body_def)

lemma poll_loop_forever:
  assumes "poll_loop h r k runStatus st = Some out"
  shows "\<not> (keeps_polling runStatus \<and>
            (\<forall>j\<ge>k. \<exists>runStatus'. retrieve h (thread_id r) (run_id r) j = Inr runStatus'
                        \<and> keeps_polling runStatus'))"
proof (rule poll_loop.raw_induct
    [where P = "\<lambda>h r k runStatus st out. \<not> (keeps_polling runStatus \<and>
            (\<forall>j\<ge>k. \<exists>runStatus'. retrieve h (thread_id r) (run_id r) j = Inr runStatus'
                        \<and> keeps_polling runStatus'))", OF _ assms])
  fix f h r k runStatus st out
  assume IH: "\<And>h r k runStatus st out. f h r k runStatus st = Some out \<Longrightarrow>
      \<not> (keeps_polling runStatus \<and>
            (\<forall>j\<ge>k. \<exists>runStatus'. retrieve h (thread_id r) (run_id r) j = Inr runStatus'
                        \<and> keeps_polling runStatus'))"
    and unfolded: "(if status runStatus \<noteq> ''completed'' then
        (case loop_body h r k runStatus st of
           Finish out \<Rightarrow> Some out
         | Again runStatus' st' \<Rightarrow> f h r (Suc k) runStatus' st')
      else Some (text_completion h r st)) = Some out"
  show "\<not> (keeps_polling runStatus \<and>
            (\<forall>j\<ge>k. \<exists>runStatus'. retrieve h (thread_id r) (run_id r) j = Inr runStatus'
                        \<and> keeps_polling runStatus'))"
  proof
    assume a: "keeps_polling runStatus \<and>
            (\<forall>j\<ge>k. \<exists>runStatus'. retrieve h (thread_id r) (run_id r) j = Inr runStatus'
                        \<and> keeps_polling runStatus')"
    then obtain runStatus' where r': "retrieve h (thread_id r) (run_id r) k = Inr runStatus'"
      "keeps_polling runStatus'" by blast
    from a have later: "\<forall>j\<ge>Suc k. \<exists>runStatus'. retrieve h (thread_id r) (run_id r) j = Inr runStatus'
                        \<and> keeps_polling runStatus'" by simp
    from a have body: "loop_body h r k runStatus st = wait_and_retrieve h r k st"
      by (simp add: keeps_polling_loop_body)
    from a have nc: "status runStatus \<noteq> ''completed''" by (simp add: keeps_polling_def)
    from unfolded nc body r' have next_call:
      "f h r (Suc k) runStatus'
         (st\<lparr>calls := calls st @ [Sleep 1000, RunsRetrieve (thread_id r) (run_id r)]\<rparr>) = Some out"
      by (simp add: wait_and_retrieve_def Let_def)
    have "\<not> (keeps_polling runStatus' \<and>
            (\<forall>j\<ge>Suc k. \<exists>runStatus'. retrieve h (thread_id r) (run_id r) j = Inr runStatus'
                        \<and> keeps_polling runStatus'))"
      by (rule IH [OF next_call])
    with r' later show False by blast
  qed
qed

lemma poll_loop_never_returns:
  assumes "keeps_polling runStatus"
    and "\<forall>j\<ge>k. \<exists>runStatus'. retrieve h (thread_id r) (run_id r) j = Inr runStatus'
                        \<and> keeps_polling runStatus'"
  shows "poll_loop h r k runStatus st = None"
proof (cases "poll_loop h r k runStatus st")
  case None
  then show ?thesis .
next
  case (Some out)
  from poll_loop_forever [OF Some] assms show ?thesis by blast
qed

text \<open>
  C6, as amended. When the handler stands at the loop test with the status
  \<open>requires_action\<close> and none of the requested tool calls is named \<open>display_signal_card\<close>,
  the pass through the loop body is the wait of 1000 ms followed by \<open>runs.retrieve\<close> and
  nothing else: the handler does not answer and does not throw on account of that status.
  When that retrieve returns a status, the handler stands at the loop test again with it,
  and the answer of the request is the answer of the loop from there. When that retrieve
  is rejected, the error is thrown in that very pass, and the route answers with status
  500 and the message of the error. If every later retrieve returns a status that keeps
  the loop polling, the handler never answers.
\<close>

theorem C6_unmatched_action_keeps_polling:
  assumes "polled h body st0 r k runStatus st"
    and "status runStatus = ''requires_action''"
    and "required_action runStatus = Some toolCalls"
    and "\<forall>tc \<in> set toolCalls. fn_name tc \<noteq> ''display_signal_card''"
  shows "loop_body h r k runStatus st = wait_and_retrieve h r k st \<and>
    (retrieve h (thread_id r) (run_id r) k = Inr runStatus' \<longrightarrow>
       polled h body st0 r (Suc k) runStatus'
         (st\<lparr>calls := calls st @ [Sleep 1000, RunsRetrieve (thread_id r) (run_id r)]\<rparr>) \<and>
       try_block h body st0 =
         poll_loop h r (Suc k) runStatus'
           (st\<lparr>calls := calls st @ [Sleep 1000, RunsRetrieve (thread_id r) (run_id r)]\<rparr>)) \<and>
    (retrieve h (thread_id r) (run_id r) k = Inl e \<longrightarrow>
       chat_handler h body st0 =
         Some (Json 500 (JObj [(''error'', JStr (message e))]),
               st\<lparr>calls := calls st @ [Sleep 1000, RunsRetrieve (thread_id r) (run_id r)]\<rparr>)) \<and>
    ((\<forall>j\<ge>k. \<exists>runStatus'. retrieve h (thread_id r) (run_id r) j = Inr runStatus'
                        \<and> keeps_polling runStatus') \<longrightarrow>
       chat_handler h body st0 = None)"
proof -
  from assms(2-4) have none: "display_action runStatus = Inr None"
    by (rule display_action_unmatched)
  with assms(2) have keeps: "keeps_polling runStatus"
    by (simp add: keeps_polling_def)
  then have body: "loop_body h r k runStatus st = wait_and_retrieve h r k st"
    by (rule keeps_polling_loop_body)
  have nc: "status runStatus \<noteq> ''completed''" using assms(2) by simp
  have next_one: "polled h body st0 r (Suc k) runStatus'
         (st\<lparr>calls := calls st @ [Sleep 1000, RunsRetrieve (thread_id r) (run_id r)]\<rparr>)"
    if "retrieve h (thread_id r) (run_id r) k = Inr runStatus'"
  proof (rule next_poll [OF assms(1) nc])
    show "loop_body h r k runStatus st =
        Again runStatus' (st\<lparr>calls := calls st @ [Sleep 1000, RunsRetrieve (thread_id r) (run_id r)]\<rparr>)"
      using that by (simp add: body wait_and_retrieve_def Let_def)
  qed
  have rejected: "chat_handler h body st0 =
         Some (Json 500 (JObj [(''error'', JStr (message e))]),
               st\<lparr>calls := calls st @ [Sleep 1000, RunsRetrieve (thread_id r) (run_id r)]\<rparr>)"
    if "retrieve h (thread_id r) (run_id r) k = Inl e"
  proof -
    from that have "loop_body h r k runStatus st =
        Finish (Inl e, st\<lparr>calls := calls st @ [Sleep 1000, RunsRetrieve (thread_id r) (run_id r)]\<rparr>)"
      by (simp add: body wait_and_retrieve_def Let_def)
    with nc have "poll_loop h r k runStatus st =
        Some (Inl e, st\<lparr>calls := calls st @ [Sleep 1000, RunsRetrieve (thread_id r) (run_id r)]\<rparr>)"
      by (rule poll_loop_Finish)
    with assms(1) have "try_block h body st0 =
        Some (Inl e, st\<lparr>calls := calls st @ [Sleep 1000, RunsRetrieve (thread_id r) (run_id r)]\<rparr>)"
      by (simp add: polled_try_block)
    then show ?thesis by (rule chat_handler_thrown)
  qed
  have forever: "chat_handler h body st0 = None"
    if "\<forall>j\<ge>k. \<exists>runStatus'. retrieve h (thread_id r) (run_id r) j = Inr runStatus'
                        \<and> keeps_polling runStatus'"
  proof -
    from keeps that have "poll_loop h r k runStatus st = None"
      by (rule poll_loop_never_returns)
    with assms(1) show ?thesis
      by (simp add: chat_handler_def polled_try_block)
  qed
  from body next_one rejected forever show ?thesis
    by (simp add: polled_try_block)
qed

lemma show_card_parse_error:
  "JSON_parse h (fn_arguments displayAction) = Inl e \<Longrightarrow> show_card h displayAction st = (Inl e, st)"
  by (simp add: show_card_def)

lemma loop_body_display:
  assumes "status runStatus = ''requires_action''"
    and "required_action runStatus = Some toolCalls"
    and "find (\<lambda>tc. fn_name tc = ''display_signal_card'') toolCalls = Some displayAction"
  shows "loop_body h r k runStatus st = Finish (show_card h displayAction st)"
  using assms by (simp add: loop_body_def display_action_def)

lemma polled_display:
  assumes "polled h body st0 r k runStatus st"
    and "status runStatus = ''requires_action''"
    and "required_action runStatus = Some toolCalls"
    and "find (\<lambda>tc. fn_name tc = ''display_signal_card'') toolCalls = Some displayAction"
  shows "try_block h body st0 = Some (show_card h displayAction st)"
proof -
  have "poll_loop h r k runStatus st = Some (show_card h displayAction st)"
    using assms(2) loop_body_display [OF assms(2-4)] by (intro poll_loop_Finish) simp_all
  with assms(1) show ?thesis by (simp add: polled_try_block)
qed

text \<open>
  C9. When the handler stands at the loop test with \<open>requires_action\<close> and the first tool
  call named \<open>display_signal_card\<close> carries an argument text on which \<open>JSON.parse\<close>
  throws, the route answers with status 500 and the message of that error, and the log
  file is what it was when the request came in: nothing is appended.
\<close>

theorem C9_malformed_arguments:
  assumes "polled h body st0 r k runStatus st"
    and "status runStatus = ''requires_action''"
    and "required_action runStatus = Some toolCalls"
    and "find (\<lambda>tc. fn_name tc = ''display_signal_card'') toolCalls = Some displayAction"
    and "JSON_parse h (fn_arguments displayAction) = Inl e"
  shows "chat_handler h body st0 = Some (Json 500 (JObj [(''error'', JStr (message e))]), st) \<and>
         status_code (Json 500 (JObj [(''error'', JStr (message e))])) = 500 \<and>
         csv_file st = csv_file st0"
proof -
  from polled_display [OF assms(1-4)] assms(5)
  have "try_block h body st0 = Some (Inl e, st)"
    by (simp add: show_card_parse_error)
  then have "chat_handler h body st0 = Some (Json 500 (JObj [(''error'', JStr (message e))]), st)"
    by (rule chat_handler_thrown)
  moreover from assms(1) have "csv_file st = csv_file st0" by (rule polled_csv_file)
  ultimately show ?thesis by simp
qed

lemma card_host_polled:
  "polled (card_host args) (JObj []) fresh example_run 1 (requires_action [display_signal_card args])
     \<lparr>csv_file = None,
      calls = [CreateAndRun (JStr ''Find top signals''), RunsRetrieve ''thread_1'' ''run_1'']\<rparr>"
proof -
  have "polled (card_host args) (JObj []) fresh example_run 1 (requires_action [display_signal_card args])
      (fresh\<lparr>calls := calls fresh @ [CreateAndRun (JStr ''Find top signals'')]
                 @ [RunsRetrieve (thread_id example_run) (run_id example_run)]\<rparr>)"
    by (rule first_poll [where logged = "''Find top signals''"])
       (simp_all add: userMessage_of_def eval_host eval_js)
  then show ?thesis by (simp add: eval_host)
qed

theorem C9_malformed_arguments_witness:
  "polled (card_host ''not json'') (JObj []) fresh example_run 1
     (requires_action [display_signal_card ''not json''])
     \<lparr>csv_file = None,
      calls = [CreateAndRun (JStr ''Find top signals''), RunsRetrieve ''thread_1'' ''run_1'']\<rparr> \<and>
   status (requires_action [display_signal_card ''not json'']) = ''requires_action'' \<and>
   required_action (requires_action [display_signal_card ''not json'']) =
     Some [display_signal_card ''not json''] \<and>
   find (\<lambda>tc. fn_name tc = ''display_signal_card'') [display_signal_card ''not json''] =
     Some (display_signal_card ''not json'') \<and>
   JSON_parse (card_host ''not json'') (fn_arguments (display_signal_card ''not json'')) =
     Inl (SyntaxError ''Unexpected token'') \<and>
   chat_handler (card_host ''not json'') (JObj []) fresh =
     Some (Json 500 (JObj [(''error'', JStr ''Unexpected token'')]),
           \<lparr>csv_file = None,
            calls = [CreateAndRun (JStr ''Find top signals''), RunsRetrieve ''thread_1'' ''run_1'']\<rparr>) \<and>
   csv_file fresh = None"
  using card_host_polled [of "''not json''"]
    C9_malformed_arguments [of "card_host ''not json''" "JObj []" fresh example_run 1
      "requires_action [display_signal_card ''not json'']"
      "\<lparr>csv_file = None,
        calls = [CreateAndRun (JStr ''Find top signals''), RunsRetrieve ''thread_1'' ''run_1'']\<rparr>"
      "[display_signal_card ''not json'']" "display_signal_card ''not json''"
      "SyntaxError ''Unexpected token''"]
  by (simp add: eval_host)

lemma other_tool_host_polled:
  "polled other_tool_host (JObj []) fresh example_run 1 (requires_action [other_tool])
     \<lparr>csv_file = None,
      calls = [CreateAndRun (JStr ''Find top signals''), RunsRetrieve ''thread_1'' ''run_1'']\<rparr>"
proof -
  have "polled other_tool_host (JObj []) fresh example_run 1 (requires_action [other_tool])
      (fresh\<lparr>calls := calls fresh @ [CreateAndRun (JStr ''Find top signals'')]
                 @ [RunsRetrieve (thread_id example_run) (run_id example_run)]\<rparr>)"
    by (rule first_poll [where logged = "''Find top signals''"])
       (simp_all add: userMessage_of_def eval_host eval_js)
  then show ?thesis by (simp add: eval_host)
qed

lemma refetch_fails_host_polled:
  "polled refetch_fails_host (JObj []) fresh example_run 1 (requires_action [other_tool])
     \<lparr>csv_file = None,
      calls = [CreateAndRun (JStr ''Find top signals''), RunsRetrieve ''thread_1'' ''run_1'']\<rparr>"
proof -
  have "polled refetch_fails_host (JObj []) fresh example_run 1 (requires_action [other_tool])
      (fresh\<lparr>calls := calls fresh @ [CreateAndRun (JStr ''Find top signals'')]
                 @ [RunsRetrieve (thread_id example_run) (run_id example_run)]\<rparr>)"
    by (rule first_poll [where logged = "''Find top signals''"])
       (simp_all add: userMessage_of_def eval_host eval_js refetch_fails_host_def)
  then show ?thesis by (simp add: eval_host)
qed

theorem C6_unmatched_action_keeps_polling_witness:
  "polled other_tool_host (JObj []) fresh example_run 1 (requires_action [other_tool])
     \<lparr>csv_file = None,
      calls = [CreateAndRun (JStr ''Find top signals''), RunsRetrieve ''thread_1'' ''run_1'']\<rparr> \<and>
   status (requires_action [other_tool]) = ''requires_action'' \<and>
   required_action (requires_action [other_tool]) = Some [other_tool] \<and>
   fn_name other_tool = ''get_weather'' \<and>
   retrieve other_tool_host ''thread_1'' ''run_1'' 1 = Inr (requires_action [other_tool]) \<and>
   polled other_tool_host (JObj []) fresh example_run 2 (requires_action [other_tool])
     \<lparr>csv_file = None,
      calls = [CreateAndRun (JStr ''Find top signals''), RunsRetrieve ''thread_1'' ''run_1'',
               Sleep 1000, RunsRetrieve ''thread_1'' ''run_1'']\<rparr> \<and>
   chat_handler other_tool_host (JObj []) fresh = None \<and>
   polled refetch_fails_host (JObj []) fresh example_run 1 (requires_action [other_tool])
     \<lparr>csv_file = None,
      calls = [CreateAndRun (JStr ''Find top signals''), RunsRetrieve ''thread_1'' ''run_1'']\<rparr> \<and>
   retrieve refetch_fails_host ''thread_1'' ''run_1'' 1 = Inl (APIError ''Connection error.'') \<and>
   chat_handler refetch_fails_host (JObj []) fresh =
     Some (Json 500 (JObj [(''error'', JStr ''Connection error.'')]),
           \<lparr>csv_file = None,
            calls = [CreateAndRun (JStr ''Find top signals''), RunsRetrieve ''thread_1'' ''run_1'',
                     Sleep 1000, RunsRetrieve ''thread_1'' ''run_1'']\<rparr>)"
proof -
  have forever: "\<forall>j\<ge>1. \<exists>runStatus'.
      retrieve other_tool_host (thread_id example_run) (run_id example_run) j = Inr runStatus'
        \<and> keeps_polling runStatus'"
    by (simp add: eval_host keeps_polling_def display_action_def)
  have unmatched: "\<forall>tc \<in> set [other_tool]. fn_name tc \<noteq> ''display_signal_card''"
    by (simp add: other_tool_def)
  from C6_unmatched_action_keeps_polling [OF other_tool_host_polled _ _ unmatched,
      of "requires_action [other_tool]"]
    C6_unmatched_action_keeps_polling [OF refetch_fails_host_polled _ _ unmatched,
      of _ "APIError ''Connection error.''"]
    forever other_tool_host_polled refetch_fails_host_polled
  show ?thesis
    by (simp add: eval_host eval_nat_numeral refetch_fails_host_def)
qed

text \<open>
  C6 as stated fails: the agent asks for the tool \<open>get_weather\<close> at the first retrieve and
  rejects the second. The handler stands at the loop test with \<open>requires_action\<close> and no
  call named \<open>display_signal_card\<close>; the pass through the loop body ends with the error
  thrown by the retrieve, and the route answers with status 500.
\<close>

theorem C6_counterexample:
  "polled refetch_fails_host (JObj []) fresh example_run 1 (requires_action [other_tool])
     \<lparr>csv_file = None,
      calls = [CreateAndRun (JStr ''Find top signals''), RunsRetrieve ''thread_1'' ''run_1'']\<rparr> \<and>
   status (requires_action [other_tool]) = ''requires_action'' \<and>
   required_action (requires_action [other_tool]) = Some [other_tool] \<and>
   fn_name other_tool = ''get_weather'' \<and>
   loop_body refetch_fails_host example_run 1 (requires_action [other_tool])
     \<lparr>csv_file = None,
      calls = [CreateAndRun (JStr ''Find top signals''), RunsRetrieve ''thread_1'' ''run_1'']\<rparr> =
     Finish (Inl (APIError ''Connection error.''),
       \<lparr>csv_file = None,
        calls = [CreateAndRun (JStr ''Find top signals''), RunsRetrieve ''thread_1'' ''run_1'',
                 Sleep 1000, RunsRetrieve ''thread_1'' ''run_1'']\<rparr>) \<and>
   chat_handler refetch_fails_host (JObj []) fresh =
     Some (Json 500 (JObj [(''error'', JStr ''Connection error.'')]),
           \<lparr>csv_file = None,
            calls = [CreateAndRun (JStr ''Find top signals''), RunsRetrieve ''thread_1'' ''run_1'',
                     Sleep 1000, RunsRetrieve ''thread_1'' ''run_1'']\<rparr>)"
  using refetch_fails_host_polled
  by (simp add: eval_handler eval_js eval_host refetch_fails_host_def)

lemma logSignalToCsv_row:
  assumes "logSignalToCsv h data st = (Inr u, st')"
  shows "\<exists>row. length row = 7 \<and> calls st' = calls st \<and>
     csv_file st' = Some ((case csv_file st of None \<Rightarrow> [header_row] | Some rows \<Rightarrow> rows) @ [row])"
  using assms
proof (rule logSignalToCsv_done)
  fix rcd row
  assume "stringify_record h CSV_header rcd = Inr row"
    and "st' = st\<lparr>csv_file := Some ((case csv_file st of None \<Rightarrow> [header_row] | Some rows \<Rightarrow> rows) @ [row])\<rparr>"
  then show ?thesis
    using stringify_record_length [of h CSV_header rcd row]
    by (intro exI [of _ row]) (simp add: CSV_header_def)
qed

lemma replicate_pair:
  "c \<in> set (concat (replicate n [a, b])) \<Longrightarrow> c = a \<or> c = b"
  by (induction n) auto

text \<open>
  C1, as amended. When the handler stands at the loop test with \<open>requires_action\<close>, the
  first tool call named \<open>display_signal_card\<close> carries an argument text that \<open>JSON.parse\<close>
  accepts, and \<open>logSignalToCsv\<close> of the parsed value returns, then exactly one row of seven
  cells has been appended to the log (after the header row when the file was new); the
  calls made to the agent API are \<open>createAndRun\<close>, the retrieves and the waits between
  them, and no tool outputs are submitted; and the route answers with the card and status
  200 when \<open>buildWidgetPayload\<close> returns one, and with status 500 when it throws, the
  row staying appended.
\<close>

theorem C1_card_returned:
  assumes "polled h body st0 r k runStatus st"
    and "status runStatus = ''requires_action''"
    and "required_action runStatus = Some toolCalls"
    and "find (\<lambda>tc. fn_name tc = ''display_signal_card'') toolCalls = Some displayAction"
    and "JSON_parse h (fn_arguments displayAction) = Inr signalData"
    and "logSignalToCsv h signalData st = (Inr (), st')"
  shows "(buildWidgetPayload h signalData = Inr payload \<longrightarrow>
            chat_handler h body st0 = Some (Json 200 payload, st')) \<and>
         (buildWidgetPayload h signalData = Inl e \<longrightarrow>
            chat_handler h body st0 = Some (Json 500 (JObj [(''error'', JStr (message e))]), st')) \<and>
         (\<exists>row. length row = 7 \<and>
            csv_file st' =
              Some ((case csv_file st0 of None \<Rightarrow> [header_row] | Some rows \<Rightarrow> rows) @ [row])) \<and>
         (\<exists>userMessage. calls st' =
            calls st0 @ CreateAndRun userMessage # RunsRetrieve (thread_id r) (run_id r)
              # concat (replicate (k - 1) [Sleep 1000, RunsRetrieve (thread_id r) (run_id r)])) \<and>
         (\<forall>c \<in> set (drop (length (calls st0)) (calls st')). \<forall>t o'. c \<noteq> SubmitToolOutputs t o')"
proof -
  have t: "try_block h body st0 = Some (show_card h displayAction st)"
    using assms(1-4) by (rule polled_display)
  have ok: "chat_handler h body st0 = Some (Json 200 payload, st')"
    if "buildWidgetPayload h signalData = Inr payload"
    using that t assms(5,6) by (simp add: show_card_def chat_handler_returned)
  have thrown: "chat_handler h body st0 = Some (Json 500 (JObj [(''error'', JStr (message e))]), st')"
    if "buildWidgetPayload h signalData = Inl e"
    using that t assms(5,6) by (simp add: show_card_def chat_handler_thrown)
  from logSignalToCsv_row [OF assms(6)] obtain row where row: "length row = 7"
    "calls st' = calls st"
    "csv_file st' = Some ((case csv_file st of None \<Rightarrow> [header_row] | Some rows \<Rightarrow> rows) @ [row])"
    by blast
  from polled_csv_file [OF assms(1)] row have grown: "\<exists>row. length row = 7 \<and>
            csv_file st' =
              Some ((case csv_file st0 of None \<Rightarrow> [header_row] | Some rows \<Rightarrow> rows) @ [row])"
    by auto
  from polled_calls [OF assms(1)] row(2) obtain userMessage where calls: "calls st' =
            calls st0 @ CreateAndRun userMessage # RunsRetrieve (thread_id r) (run_id r)
              # concat (replicate (k - 1) [Sleep 1000, RunsRetrieve (thread_id r) (run_id r)])"
    by auto
  have none: "\<forall>c \<in> set (drop (length (calls st0)) (calls st')). \<forall>t o'. c \<noteq> SubmitToolOutputs t o'"
    unfolding calls using replicate_pair [of _ "k - 1" "Sleep 1000" "RunsRetrieve (thread_id r) (run_id r)"]
    by auto
  from ok thrown grown calls none show ?thesis by blast
qed

theorem C1_card_returned_witness:
  \<open>polled (card_host spec_example_args) (JObj []) fresh example_run 1
     (requires_action [display_signal_card spec_example_args])
     \<lparr>csv_file = None,
      calls = [CreateAndRun (JStr ''Find top signals''), RunsRetrieve ''thread_1'' ''run_1'']\<rparr> \<and>
   JSON_parse (card_host spec_example_args) spec_example_args =
     Inr (JObj [(''title'', JStr ''X''), (''score'', JNum (Fin 85)),
                (''hook'', JStr ''H''), (''sourceURL'', JStr ''http://u'')]) \<and>
   chat_handler (card_host spec_example_args) (JObj []) fresh =
     Some (Json 200
             (card_tree (JStr ''SIGNAL'') ''Score: 85/100'' ''success'' (JStr ''X'') (JStr ''H'')
                (JStr ''Tech, Social'') JUndefined ''X: H'' (JStr ''http://u'')),
           \<lparr>csv_file =
              Some [header_row,
                    [''2024-05-01T12:00:00.000Z'', ''X'', ''85'', ''Adj'', ''Signal'', ''H'',
                     ''http://u'']],
            calls = [CreateAndRun (JStr ''Find top signals''), RunsRetrieve ''thread_1'' ''run_1'']\<rparr>) \<and>
   buildWidgetPayload (card_host ''{"archetype":5}'') (JObj [(''archetype'', JNum (Fin 5))]) =
     Inl (TypeError ''toUpperCase is not a function'') \<and>
   chat_handler (card_host ''{"archetype":5}'') (JObj []) fresh =
     Some (Json 500 (JObj [(''error'', JStr ''toUpperCase is not a function'')]),
           \<lparr>csv_file =
              Some [header_row,
                    [''2024-05-01T12:00:00.000Z'', ''Unknown'', ''0'', ''Adj'', ''5'', [], []]],
            calls = [CreateAndRun (JStr ''Find top signals''), RunsRetrieve ''thread_1'' ''run_1'']\<rparr>)\<close>
proof -
  have log1: "logSignalToCsv (card_host spec_example_args)
      (JObj [(''title'', JStr ''X''), (''score'', JNum (Fin 85)),
                (''hook'', JStr ''H''), (''sourceURL'', JStr ''http://u'')])
      \<lparr>csv_file = None,
       calls = [CreateAndRun (JStr ''Find top signals''), RunsRetrieve ''thread_1'' ''run_1'']\<rparr> =
    (Inr (),
     \<lparr>csv_file =
              Some [header_row,
                    [''2024-05-01T12:00:00.000Z'', ''X'', ''85'', ''Adj'', ''Signal'', ''H'',
                     ''http://u'']],
            calls = [CreateAndRun (JStr ''Find top signals''), RunsRetrieve ''thread_1'' ''run_1'']\<rparr>)"
    by (simp add: eval_store eval_js eval_host)
  have card1: "buildWidgetPayload (card_host spec_example_args)
      (JObj [(''title'', JStr ''X''), (''score'', JNum (Fin 85)),
                (''hook'', JStr ''H''), (''sourceURL'', JStr ''http://u'')]) =
     Inr (card_tree (JStr ''SIGNAL'') ''Score: 85/100'' ''success'' (JStr ''X'') (JStr ''H'')
                (JStr ''Tech, Social'') JUndefined ''X: H'' (JStr ''http://u''))"
    by (simp add: eval_card eval_js)
  have parse1: "JSON_parse (card_host spec_example_args)
      (fn_arguments (display_signal_card spec_example_args)) =
     Inr (JObj [(''title'', JStr ''X''), (''score'', JNum (Fin 85)),
                (''hook'', JStr ''H''), (''sourceURL'', JStr ''http://u'')])"
    by (simp add: eval_host)
  have found: "find (\<lambda>tc. fn_name tc = ''display_signal_card'') [display_signal_card args] =
      Some (display_signal_card args)" for args
    by (simp add: display_signal_card_def)
  have log2: \<open>logSignalToCsv (card_host ''{"archetype":5}'') (JObj [(''archetype'', JNum (Fin 5))])
      \<lparr>csv_file = None,
       calls = [CreateAndRun (JStr ''Find top signals''), RunsRetrieve ''thread_1'' ''run_1'']\<rparr> =
    (Inr (),
     \<lparr>csv_file =
              Some [header_row,
                    [''2024-05-01T12:00:00.000Z'', ''Unknown'', ''0'', ''Adj'', ''5'', [], []]],
            calls = [CreateAndRun (JStr ''Find top signals''), RunsRetrieve ''thread_1'' ''run_1'']\<rparr>)\<close>
    by (simp add: eval_store eval_js eval_host)
  have card2: \<open>buildWidgetPayload (card_host ''{"archetype":5}'') (JObj [(''archetype'', JNum (Fin 5))]) =
     Inl (TypeError ''toUpperCase is not a function'')\<close>
    by (simp add: eval_card eval_js)
  have parse2: \<open>JSON_parse (card_host ''{"archetype":5}'')
      (fn_arguments (display_signal_card ''{"archetype":5}'')) =
     Inr (JObj [(''archetype'', JNum (Fin 5))])\<close>
    by (simp add: eval_host)
  have shape: "status (requires_action tcs) = ''requires_action''"
    "required_action (requires_action tcs) = Some tcs" for tcs
    by (simp_all add: requires_action_def)
  from C1_card_returned [OF card_host_polled shape found parse1 log1]
    C1_card_returned [OF card_host_polled shape found parse2 log2]
    card_host_polled [of spec_example_args] parse1 card1 card2
  show ?thesis
    by (simp add: display_signal_card_def)
qed

text \<open>
  C1 as stated fails: the agent asks for the card with the arguments \<open>{"archetype":5}\<close>.
  The row is appended, with \<open>5\<close> in the archetype cell, and then
  \<open>(data.archetype || "SIGNAL").toUpperCase()\<close> throws, a number having no such method:
  the answer is the 500 of the catch block, not the card.
\<close>

theorem C1_counterexample:
  \<open>summary (chat_handler (card_host ''{"archetype":5}'') (JObj []) fresh) =
     Some (500,
           Some [header_row,
                 [''2024-05-01T12:00:00.000Z'', ''Unknown'', ''0'', ''Adj'', ''5'', [], []]])\<close>
  by (simp add: summary_def eval_handler eval_store eval_card eval_js eval_host)

subsection \<open>Rows of the log\<close>


lemma nth_7:
  "[a, b, c, d, e, f, g] ! 0 = a" "[a, b, c, d, e, f, g] ! 1 = b" "[a, b, c, d, e, f, g] ! 2 = c"
  "[a, b, c, d, e, f, g] ! 3 = d" "[a, b, c, d, e, f, g] ! 4 = e" "[a, b, c, d, e, f, g] ! 5 = f"
  "[a, b, c, d, e, f, g] ! 6 = g"
  by simp_all




lemma log_empty_record:
  "logSignalToCsv idle_host (JObj []) fresh =
     (Inr (),
      \<lparr>csv_file =
         Some [header_row,
               [''2024-05-01T12:00:00.000Z'', ''Unknown'', ''0'', ''Adj'', ''Signal'', [], []]],
       calls = []\<rparr>)"
  by (simp add: eval_store eval_js eval_host)



subsection \<open>The message sent to the agent\<close>

lemma is_integer_of_nat [simp]: "is_integer (of_nat n)"
  by (simp add: is_integer_def)

lemma array_index_of_nat [simp]: "array_index (Fin (of_nat n)) = Some n"
  by (simp add: array_index_def)











subsection \<open>The score\<close>

lemma num_to_string_nat:
  assumes "n \<le> 2 ^ 53"
  shows "num_to_string h (Fin (of_nat n)) = show_nat n"
proof -
  have "(of_nat n :: rat) \<le> of_nat (2 ^ 53)"
    using assms by (simp only: of_nat_le_iff)
  then have "\<bar>of_nat n :: rat\<bar> \<le> 2 ^ 53" by simp
  then show ?thesis by (simp add: num_to_string_def)
qed

lemma truthy_or_zero: "js_or (JNum (Fin q)) (JNum (Fin 0)) = JNum (Fin q)"
  by (simp add: js_or_def)

lemma score_cell_and_label:
  assumes "n \<le> 100"
  shows "stringify_field h (JNum (Fin (of_nat n))) = Inr (show_nat n)"
    and "score_label_of h (JNum (Fin (of_nat n))) = Inr (''Score: '' @ show_nat n @ ''/100'')"
proof -
  from assms have "n \<le> 2 ^ 53" by simp
  then have s: "num_to_string h (Fin (of_nat n)) = show_nat n" by (rule num_to_string_nat)
  show "stringify_field h (JNum (Fin (of_nat n))) = Inr (show_nat n)"
    by (simp add: stringify_field_def s)
  show "score_label_of h (JNum (Fin (of_nat n))) = Inr (''Score: '' @ show_nat n @ ''/100'')"
    by (simp add: score_label_of_def s)
qed

lemma score_of_JObj: "score_of (JObj kvs) = Inr (js_or (own_property kvs ''score'') (JNum (Fin 0)))"
  by (simp add: score_of_def)

lemma badge_label:
  assumes "buildWidgetPayload h (JObj kvs) = Inr payload"
  shows "\<exists>label. score_label_of h (js_or (own_property kvs ''score'') (JNum (Fin 0))) = Inr label \<and>
           field_of ''label'' (score_badge payload) = JStr label"
  using assms
proof (rule buildWidgetPayload_Inr)
  fix score scoreColor a l sl t hk m it u
  assume "score_of (JObj kvs) = Inr score" "score_label_of h score = Inr sl"
    "payload = card_tree a sl scoreColor t hk l m it u"
  then show ?thesis
    by (intro exI [of _ sl])
       (simp add: score_of_JObj score_badge_card_tree field_of_def own_property_def)
qed

text \<open>
  C7, as amended. The score in the record that \<open>logSignalToCsv\<close> writes and the score in
  the label of the card's badge are both \<open>data.score || 0\<close>: the parsed score when it is
  truthy, and 0 when it is absent or falsy. Nothing checks that it is an integer or that
  it lies between 0 and 100: a natural number up to 100 is written and shown as its
  decimal digits, and any other score is written and shown as it came.
\<close>

theorem C7_score_passed_through:
  "(signal_record h (JObj kvs) = Inr rcd \<longrightarrow>
      own_property rcd ''score'' = js_or (own_property kvs ''score'') (JNum (Fin 0))) \<and>
   (buildWidgetPayload h (JObj kvs) = Inr payload \<longrightarrow>
      (\<exists>label. score_label_of h (js_or (own_property kvs ''score'') (JNum (Fin 0))) = Inr label \<and>
         field_of ''label'' (score_badge payload) = JStr label)) \<and>
   (map_of kvs ''score'' = None \<longrightarrow>
      js_or (own_property kvs ''score'') (JNum (Fin 0)) = JNum (Fin 0)) \<and>
   (own_property kvs ''score'' = JNum (Fin (of_nat n)) \<and> n \<le> 100 \<longrightarrow>
      js_or (own_property kvs ''score'') (JNum (Fin 0)) = JNum (Fin (of_nat n)) \<and>
      stringify_field h (JNum (Fin (of_nat n))) = Inr (show_nat n) \<and>
      score_label_of h (JNum (Fin (of_nat n))) = Inr (''Score: '' @ show_nat n @ ''/100''))"
proof (intro conjI impI)
  assume "signal_record h (JObj kvs) = Inr rcd"
  then show "own_property rcd ''score'' = js_or (own_property kvs ''score'') (JNum (Fin 0))"
    by (auto simp: signal_record_JObj own_property_def)
next
  assume "buildWidgetPayload h (JObj kvs) = Inr payload"
  then show "\<exists>label. score_label_of h (js_or (own_property kvs ''score'') (JNum (Fin 0))) = Inr label \<and>
         field_of ''label'' (score_badge payload) = JStr label"
    by (rule badge_label)
next
  assume "map_of kvs ''score'' = None"
  then show "js_or (own_property kvs ''score'') (JNum (Fin 0)) = JNum (Fin 0)"
    by (simp add: own_property_absent)
next
  assume a: "own_property kvs ''score'' = JNum (Fin (of_nat n)) \<and> n \<le> 100"
  then show "js_or (own_property kvs ''score'') (JNum (Fin 0)) = JNum (Fin (of_nat n))"
    by (simp add: truthy_or_zero)
  from a show "stringify_field h (JNum (Fin (of_nat n))) = Inr (show_nat n)"
    by (simp add: score_cell_and_label)
  from a show "score_label_of h (JNum (Fin (of_nat n))) = Inr (''Score: '' @ show_nat n @ ''/100'')"
    by (simp add: score_cell_and_label)
qed

theorem C7_score_passed_through_witness:
  "signal_record idle_host (score_only 85) =
     Inr [(''timestamp'', JStr ''2024-05-01T12:00:00.000Z''), (''title'', JStr ''Unknown''),
          (''score'', JNum (Fin 85)), (''mission'', JStr ''Adj''), (''archetype'', JStr ''Signal''),
          (''hook'', JStr []), (''sourceURL'', JStr [])] \<and>
   buildWidgetPayload idle_host (score_only 85) =
     Inr (card_tree (JStr ''SIGNAL'') ''Score: 85/100'' ''success'' JUndefined JUndefined
            (JStr ''Tech, Social'') JUndefined ''undefined: undefined'' JUndefined) \<and>
   own_property [(''score'', JNum (Fin 85))] ''score'' = JNum (Fin 85) \<and>
   stringify_field idle_host (JNum (Fin 85)) = Inr ''85'' \<and>
   score_label_of idle_host (JNum (Fin 85)) = Inr ''Score: 85/100'' \<and>
   map_of ([] :: (string \<times> jsval) list) ''score'' = None \<and>
   score_of (JObj []) = Inr (JNum (Fin 0))"
  using C7_score_passed_through [of idle_host "[(''score'', JNum (Fin 85))]"
      "[(''timestamp'', JStr ''2024-05-01T12:00:00.000Z''), (''title'', JStr ''Unknown''),
          (''score'', JNum (Fin 85)), (''mission'', JStr ''Adj''), (''archetype'', JStr ''Signal''),
          (''hook'', JStr []), (''sourceURL'', JStr [])]"
      "card_tree (JStr ''SIGNAL'') ''Score: 85/100'' ''success'' JUndefined JUndefined
            (JStr ''Tech, Social'') JUndefined ''undefined: undefined'' JUndefined" 85]
    C7_score_passed_through [of idle_host "[]"]
  by (simp add: score_only_def signal_record_def eval_card eval_js eval_host stringify_field_def)

text \<open>
  C7 as stated fails: the agent asks for the card with the arguments \<open>{"score":150}\<close>; the
  row written has the score cell \<open>150\<close> and the badge of the card returned reads
  \<open>Score: 150/100\<close>.
\<close>

theorem C7_counterexample:
  \<open>chat_handler (card_host ''{"score":150}'') (JObj []) fresh =
     Some (Json 200
             (card_tree (JStr ''SIGNAL'') ''Score: 150/100'' ''success'' JUndefined JUndefined
                (JStr ''Tech, Social'') JUndefined ''undefined: undefined'' JUndefined),
           \<lparr>csv_file =
              Some [header_row,
                    [''2024-05-01T12:00:00.000Z'', ''Unknown'', ''150'', ''Adj'', ''Signal'', [], []]],
            calls = [CreateAndRun (JStr ''Find top signals''), RunsRetrieve ''thread_1'' ''run_1'']\<rparr>)\<close>
  by (simp add: eval_handler eval_store eval_card eval_js eval_host)

subsection \<open>The download\<close>

lemma show_card_appended:
  assumes "appended st0 n st" and "show_card h displayAction st = (out, st')"
  shows "appended st0 n st' \<or> appended st0 (Suc n) st'"
proof (cases "JSON_parse h (fn_arguments displayAction)")
  case (Inl e)
  with assms show ?thesis by (simp add: show_card_def)
next
  case (Inr signalData)
  obtain res st1 where l: "logSignalToCsv h signalData st = (res, st1)"
    by (cases "logSignalToCsv h signalData st")
  show ?thesis
  proof (cases res)
    case (Inl e)
    with l have "st1 = st" by (simp add: logSignalToCsv_thrown)
    with assms Inr l Inl show ?thesis by (simp add: show_card_def)
  next
    case (Inr u)
    with l assms(1) have "appended st0 (Suc n) st1" by (simp add: append_done)
    moreover from assms(2) \<open>JSON_parse h (fn_arguments displayAction) = Inr signalData\<close> l Inr
    have "st' = st1" by (auto simp: show_card_def split: sum.splits)
    ultimately show ?thesis by simp
  qed
qed

lemma loop_body_Finish_appended:
  assumes "appended st0 n st" and "loop_body h r k runStatus st = Finish (out, st')"
  shows "appended st0 n st' \<or> appended st0 (Suc n) st'"
  using assms
  by (auto simp: loop_body_def wait_and_retrieve_def Let_def
      split: if_splits sum.splits option.splits
      dest: show_card_appended [OF assms(1)] intro: file_kept [OF assms(1)])

lemma poll_loop_appended:
  assumes "poll_loop h r k runStatus st = Some out"
  shows "\<forall>st0 n. appended st0 n st \<longrightarrow> appended st0 n (snd out) \<or> appended st0 (Suc n) (snd out)"
proof (rule poll_loop.raw_induct
    [where P = "\<lambda>h r k runStatus st out.
       \<forall>st0 n. appended st0 n st \<longrightarrow> appended st0 n (snd out) \<or> appended st0 (Suc n) (snd out)",
     OF _ assms])
  fix f h r k runStatus st out
  assume IH: "\<And>h r k runStatus st out. f h r k runStatus st = Some out \<Longrightarrow>
      \<forall>st0 n. appended st0 n st \<longrightarrow> appended st0 n (snd out) \<or> appended st0 (Suc n) (snd out)"
    and unfolded: "(if status runStatus \<noteq> ''completed'' then
        (case loop_body h r k runStatus st of
           Finish out \<Rightarrow> Some out
         | Again runStatus' st' \<Rightarrow> f h r (Suc k) runStatus' st')
      else Some (text_completion h r st)) = Some out"
  show "\<forall>st0 n. appended st0 n st \<longrightarrow> appended st0 n (snd out) \<or> appended st0 (Suc n) (snd out)"
  proof (intro allI impI)
    fix st0 n
    assume a: "appended st0 n st"
    show "appended st0 n (snd out) \<or> appended st0 (Suc n) (snd out)"
    proof (cases "status runStatus = ''completed''")
      case True
      with unfolded have "out = text_completion h r st" by simp
      then have "csv_file (snd out) = csv_file st" by (simp add: text_completion_def)
      with a show ?thesis by (auto intro: file_kept)
    next
      case False
      show ?thesis
      proof (cases "loop_body h r k runStatus st")
        case (Finish out')
        with unfolded False have "out' = out" by simp
        with Finish have "loop_body h r k runStatus st = Finish (fst out, snd out)" by simp
        with a show ?thesis by (rule loop_body_Finish_appended)
      next
        case (Again runStatus' st')
        with unfolded False have next_call: "f h r (Suc k) runStatus' st' = Some out" by simp
        from loop_body_Again [OF Again] have "csv_file st' = csv_file st" by simp
        with a have "appended st0 n st'" by (auto intro: file_kept)
        with IH [OF next_call] show ?thesis by blast
      qed
    qed
  qed
qed

lemma chat_handler_appended:
  assumes "appended st0 n st" and "chat_handler h body st = Some (res, st')"
  shows "appended st0 n st' \<or> appended st0 (Suc n) st'"
proof -
  from assms(2) obtain out where t: "try_block h body st = Some out" and st': "st' = snd out"
    by (auto simp: chat_handler_def respond_def)
  have kept: "appended st0 n st1" if "csv_file st1 = csv_file st" for st1
    using assms(1) that by (rule file_kept)
  show ?thesis
  proof (cases "userMessage_of h body")
    case (Inl e)
    with t st' assms(1) show ?thesis by (auto simp: try_block_def)
  next
    case m: (Inr userMessage)
    show ?thesis
    proof (cases "ToString h userMessage")
      case (Inl e)
      with m t st' assms(1) show ?thesis by (auto simp: try_block_def)
    next
      case logged: (Inr logged)
      show ?thesis
      proof (cases "createAndRun h userMessage")
        case (Inl e)
        with m logged t st' show ?thesis by (auto simp: try_block_def Let_def intro: kept)
      next
        case r: (Inr r)
        show ?thesis
        proof (cases "retrieve h (thread_id r) (run_id r) 0")
          case (Inl e)
          with m logged r t st' show ?thesis by (auto simp: try_block_def Let_def intro: kept)
        next
          case (Inr runStatus)
          with m logged r t have "poll_loop h r 1 runStatus
              (st\<lparr>calls := (calls st @ [CreateAndRun userMessage])
                     @ [RunsRetrieve (thread_id r) (run_id r)]\<rparr>) = Some out"
            by (simp add: try_block_def Let_def)
          from poll_loop_appended [OF this] kept st' show ?thesis by simp
        qed
      qed
    qed
  qed
qed

lemma appended_file:
  assumes "appended st0 n st" and "csv_file st0 = None"
  shows "(n = 0 \<and> csv_file st = None) \<or>
         (0 < n \<and> (\<exists>rows. length rows = n \<and> csv_file st = Some (header_row # rows)))"
  using assms
proof (induction rule: appended.induct)
  case no_append
  then show ?case by simp
next
  case (append_done n st h data st')
  from logSignalToCsv_row [OF append_done.hyps(2)] obtain row where
    row: "csv_file st' = Some ((case csv_file st of None \<Rightarrow> [header_row] | Some rows \<Rightarrow> rows) @ [row])"
    by blast
  from append_done.IH [OF append_done.prems] show ?case
  proof
    assume "n = 0 \<and> csv_file st = None"
    with row show ?thesis by (intro disjI2) (simp add: exI [of _ "[row]"])
  next
    assume "0 < n \<and> (\<exists>rows. length rows = n \<and> csv_file st = Some (header_row # rows))"
    then obtain rows where "length rows = n" "csv_file st = Some (header_row # rows)" by blast
    with row show ?thesis by (intro disjI2) (simp add: exI [of _ "rows @ [row]"])
  qed
next
  case (append_thrown n st h data e st')
  from logSignalToCsv_thrown [OF append_thrown.hyps(2)] append_thrown.IH [OF append_thrown.prems]
  show ?case by simp
next
  case (file_kept n st st')
  from file_kept.IH [OF file_kept.prems] file_kept.hyps(2) show ?case by simp
qed

text \<open>
  C8. When the log file does not exist, the download route answers 404 with the text
  \<open>No signals have been logged yet.\<close>; that is so before any append has returned, when the
  server started without the file. After \<open>n > 0\<close> appends have returned, whatever other
  appends have thrown in between, the route sends the file, and the file is the header row
  followed by \<open>n\<close> rows. A chat request that ends is at most one such append.
\<close>

theorem C8_download:
  "(csv_file st = None \<longrightarrow>
      download_csv st = SendText 404 ''No signals have been logged yet.'' \<and>
      status_code (download_csv st) = 404) \<and>
   (appended st0 n st \<and> csv_file st0 = None \<longrightarrow>
      (n = 0 \<longrightarrow> download_csv st = SendText 404 ''No signals have been logged yet.'') \<and>
      (0 < n \<longrightarrow>
         (\<exists>rows. length rows = n \<and> csv_file st = Some (header_row # rows) \<and>
            download_csv st = Download (header_row # rows)))) \<and>
   (appended st0 n st \<and> chat_handler h body st = Some (res, st') \<longrightarrow>
      appended st0 n st' \<or> appended st0 (Suc n) st')"
proof (intro conjI impI)
  assume "csv_file st = None"
  then show "download_csv st = SendText 404 ''No signals have been logged yet.''"
    "status_code (download_csv st) = 404"
    by (simp_all add: download_csv_def)
next
  assume a: "appended st0 n st \<and> csv_file st0 = None" and "n = 0"
  with appended_file [of st0 n st]
  show "download_csv st = SendText 404 ''No signals have been logged yet.''"
    by (simp add: download_csv_def)
next
  assume a: "appended st0 n st \<and> csv_file st0 = None" and "0 < n"
  with appended_file [of st0 n st] obtain rows where
    "length rows = n" "csv_file st = Some (header_row # rows)" by auto
  then show "\<exists>rows. length rows = n \<and> csv_file st = Some (header_row # rows) \<and>
            download_csv st = Download (header_row # rows)"
    by (simp add: download_csv_def)
next
  assume "appended st0 n st \<and> chat_handler h body st = Some (res, st')"
  then show "appended st0 n st' \<or> appended st0 (Suc n) st'"
    using chat_handler_appended by blast
qed

lemma spec_example_request:
  "chat_handler (card_host spec_example_args) (JObj []) fresh =
     Some (Json 200
             (card_tree (JStr ''SIGNAL'') ''Score: 85/100'' ''success'' (JStr ''X'') (JStr ''H'')
                (JStr ''Tech, Social'') JUndefined ''X: H'' (JStr ''http://u'')),
           \<lparr>csv_file =
              Some [header_row,
                    [''2024-05-01T12:00:00.000Z'', ''X'', ''85'', ''Adj'', ''Signal'', ''H'',
                     ''http://u'']],
            calls = [CreateAndRun (JStr ''Find top signals''), RunsRetrieve ''thread_1'' ''run_1'']\<rparr>)"
  by (simp add: eval_handler eval_store eval_card eval_js eval_host)

theorem C8_download_witness:
  "csv_file fresh = None \<and>
   download_csv fresh = SendText 404 ''No signals have been logged yet.'' \<and>
   appended fresh 0 fresh \<and>
   appended fresh 1
     \<lparr>csv_file =
         Some [header_row,
               [''2024-05-01T12:00:00.000Z'', ''Unknown'', ''0'', ''Adj'', ''Signal'', [], []]],
       calls = []\<rparr> \<and>
   download_csv
     \<lparr>csv_file =
         Some [header_row,
               [''2024-05-01T12:00:00.000Z'', ''Unknown'', ''0'', ''Adj'', ''Signal'', [], []]],
       calls = []\<rparr> =
     Download [[''TIMESTAMP'', ''TITLE'', ''SCORE'', ''MISSION'', ''ARCHETYPE'', ''HOOK'', ''SOURCE''],
               [''2024-05-01T12:00:00.000Z'', ''Unknown'', ''0'', ''Adj'', ''Signal'', [], []]] \<and>
   download_csv
     \<lparr>csv_file =
        Some [header_row,
              [''2024-05-01T12:00:00.000Z'', ''X'', ''85'', ''Adj'', ''Signal'', ''H'',
               ''http://u'']],
      calls = [CreateAndRun (JStr ''Find top signals''), RunsRetrieve ''thread_1'' ''run_1'']\<rparr> =
     Download [[''TIMESTAMP'', ''TITLE'', ''SCORE'', ''MISSION'', ''ARCHETYPE'', ''HOOK'', ''SOURCE''],
               [''2024-05-01T12:00:00.000Z'', ''X'', ''85'', ''Adj'', ''Signal'', ''H'',
                ''http://u'']]"
proof -
  have one: "appended fresh (Suc 0)
     \<lparr>csv_file =
         Some [header_row,
               [''2024-05-01T12:00:00.000Z'', ''Unknown'', ''0'', ''Adj'', ''Signal'', [], []]],
       calls = []\<rparr>"
    by (rule append_done [OF no_append log_empty_record])
  from C8_download [of fresh fresh 0]
    C8_download [of "\<lparr>csv_file =
         Some [header_row,
               [''2024-05-01T12:00:00.000Z'', ''Unknown'', ''0'', ''Adj'', ''Signal'', [], []]],
       calls = []\<rparr>" fresh "Suc 0"]
    C8_download [of fresh fresh 0 "card_host spec_example_args" "JObj []"
      "Json 200
         (card_tree (JStr ''SIGNAL'') ''Score: 85/100'' ''success'' (JStr ''X'') (JStr ''H'')
            (JStr ''Tech, Social'') JUndefined ''X: H'' (JStr ''http://u''))"
      "\<lparr>csv_file =
          Some [header_row,
                [''2024-05-01T12:00:00.000Z'', ''X'', ''85'', ''Adj'', ''Signal'', ''H'',
                 ''http://u'']],
        calls = [CreateAndRun (JStr ''Find top signals''), RunsRetrieve ''thread_1'' ''run_1'']\<rparr>"]
    one no_append [of fresh] spec_example_request
  show ?thesis
    by (simp add: fresh_def download_csv_def header_row_def CSV_header_def)
qed

subsection \<open>What the card embeds\<close>

lemma archetype_of_JObj:
  "archetype_of h (JObj kvs) =
     toUpperCase h (js_or (own_property kvs ''archetype'') (JStr ''SIGNAL''))"
  by (simp add: archetype_of_def)

lemma lenses_of_JObj:
  "lenses_of (JObj kvs) = Inr (js_or (own_property kvs ''lenses'') (JStr ''Tech, Social''))"
  by (simp add: lenses_of_def)

lemma toUpperCase_SIGNAL: "toUpperCase h (JStr ''SIGNAL'') = Inr (JStr ''SIGNAL'')"
  by (simp add: toUpperCase_def upper_char_def is_ascii_def)

lemma score_label_zero: "score_label_of h (JNum (Fin 0)) = Inr ''Score: 0/100''"
  by (simp add: score_label_of_def eval_js)

lemma insert_text_undefined:
  "insert_text_of h JUndefined JUndefined = Inr ''undefined: undefined''"
  by (simp add: insert_text_of_def)

lemma string_or_absent_cases:
  "string_or_absent kvs k \<Longrightarrow> own_property kvs k = JUndefined \<or> (\<exists>s. own_property kvs k = JStr s)"
  by (auto simp: string_or_absent_def own_property_def split: option.splits jsval.splits)

lemma number_or_absent_cases:
  "number_or_absent kvs k \<Longrightarrow> own_property kvs k = JUndefined \<or> (\<exists>n. own_property kvs k = JNum n)"
  by (auto simp: number_or_absent_def own_property_def split: option.splits jsval.splits)

lemma ToString_string_or_absent:
  "string_or_absent kvs k \<Longrightarrow> \<exists>t. ToString h (own_property kvs k) = Inr t"
  by (auto dest: string_or_absent_cases)

lemma toUpperCase_string_or_absent:
  assumes "string_or_absent kvs k"
  shows "\<exists>a. toUpperCase h (js_or (own_property kvs k) (JStr d)) = Inr a"
  using string_or_absent_cases [OF assms]
  by (auto simp: toUpperCase_def js_or_def)

lemma score_number_or_absent:
  assumes "number_or_absent kvs ''score''"
  shows "\<exists>n. js_or (own_property kvs ''score'') (JNum (Fin 0)) = JNum n"
  using number_or_absent_cases [OF assms] by (auto simp: js_or_def)

lemma scoreColor_of_number: "\<exists>c. scoreColor_of h (JNum n) = Inr c"
  by (simp add: scoreColor_of_def js_gt_def)

lemma buildWidgetPayload_typed:
  assumes "string_or_absent kvs ''title''" "string_or_absent kvs ''hook''"
    "string_or_absent kvs ''archetype''" "number_or_absent kvs ''score''"
  shows "\<exists>payload. buildWidgetPayload h (JObj kvs) = Inr payload"
proof -
  from score_number_or_absent [OF assms(4)] obtain n where
    n: "js_or (own_property kvs ''score'') (JNum (Fin 0)) = JNum n" by blast
  obtain c where c: "scoreColor_of h (JNum n) = Inr c" using scoreColor_of_number by blast
  from toUpperCase_string_or_absent [OF assms(3)] obtain a where
    a: "toUpperCase h (js_or (own_property kvs ''archetype'') (JStr ''SIGNAL'')) = Inr a" by blast
  from ToString_string_or_absent [OF assms(1)] obtain t where
    t: "ToString h (own_property kvs ''title'') = Inr t" by blast
  from ToString_string_or_absent [OF assms(2)] obtain k where
    k: "ToString h (own_property kvs ''hook'') = Inr k" by blast
  show ?thesis
    by (simp add: buildWidgetPayload_def score_of_def n c archetype_of_def a lenses_of_def
        score_label_of_def insert_text_of_def t k)
qed

lemma card_texts:
  assumes "buildWidgetPayload h (JObj kvs) = Inr payload"
  shows "\<exists>sl t k.
     ToString h (js_or (own_property kvs ''score'') (JNum (Fin 0))) = Inr sl \<and>
     ToString h (own_property kvs ''title'') = Inr t \<and>
     ToString h (own_property kvs ''hook'') = Inr k \<and>
     field_of ''label'' (score_badge payload) = JStr (''Score: '' @ sl @ ''/100'') \<and>
     field_of ''text'' (insert_button_payload payload) = JStr (t @ '': '' @ k)"
  using assms
proof (rule buildWidgetPayload_Inr)
  fix score scoreColor a l sl t hk m it u
  assume parts: "score_of (JObj kvs) = Inr score" "score_label_of h score = Inr sl"
    "js_get (JObj kvs) ''title'' = Inr t" "js_get (JObj kvs) ''hook'' = Inr hk"
    "insert_text_of h t hk = Inr it"
    and payload: "payload = card_tree a sl scoreColor t hk l m it u"
  from parts(1) have score: "score = js_or (own_property kvs ''score'') (JNum (Fin 0))"
    by (simp add: score_of_JObj)
  from parts(2) obtain s where s: "ToString h score = Inr s" "sl = ''Score: '' @ s @ ''/100''"
    by (auto simp: score_label_of_def bindE_eq_Inr)
  from parts(3,4) have t: "t = own_property kvs ''title''" and hk: "hk = own_property kvs ''hook''"
    by simp_all
  from parts(5) obtain tt kk where tk: "ToString h t = Inr tt" "ToString h hk = Inr kk"
    "it = tt @ '': '' @ kk"
    by (auto simp: insert_text_of_def bindE_eq_Inr)
  have label: "field_of ''label'' (score_badge payload) = JStr (''Score: '' @ s @ ''/100'')"
    by (simp add: payload score_badge_card_tree field_of_def own_property_def s(2))
  have inserted: "field_of ''text'' (insert_button_payload payload) = JStr (tt @ '': '' @ kk)"
    by (simp add: payload varying_nodes_card_tree tk(3))
  from s(1) [unfolded score] tk(1) [unfolded t] tk(2) [unfolded hk] label inserted
  show ?thesis by blast
qed


lemma score_label_nat:
  assumes "0 < n" and "n \<le> 2 ^ 53"
  shows "ToString h (js_or (JNum (Fin (of_nat n))) (JNum (Fin 0))) = Inr (show_nat n)"
  using assms by (simp add: js_or_def num_to_string_nat)

lemma toUpperCase_ascii:
  assumes "a \<noteq> []" and "list_all is_ascii a"
  shows "toUpperCase h (js_or (JStr a) (JStr ''SIGNAL'')) = Inr (JStr (map upper_char a))"
  using assms by (simp add: js_or_def toUpperCase_def)

lemma card_of_empty_record:
  "buildWidgetPayload idle_host (JObj []) =
     Inr (card_tree (JStr ''SIGNAL'') ''Score: 0/100'' ''secondary'' JUndefined JUndefined
            (JStr ''Tech, Social'') JUndefined ''undefined: undefined'' JUndefined)"
  by (simp add: eval_card eval_js)

lemma card_of_full_record:
  "buildWidgetPayload idle_host (JObj full_record) =
     Inr (card_tree (JStr ''TREND'') ''Score: 85/100'' ''success'' (JStr ''T'') (JStr ''H'')
            (JStr ''Tech'') (JStr ''M'') ''T: H'' (JStr ''http://u''))"
  by (simp add: eval_card eval_js full_record_def)

text \<open>
  C10. A record whose \<open>title\<close>, \<open>hook\<close> and \<open>archetype\<close> are strings or absent and whose
  \<open>score\<close> is a number or absent is rendered: \<open>buildWidgetPayload\<close> returns a card for it.
  In every card that \<open>buildWidgetPayload\<close> returns for a record, the value of the
  title node is the record's \<open>title\<close>, the value of the text node its \<open>hook\<close>, the label of
  the mission badge its \<open>mission\<close> and the \<open>url\<close> of the source button's action its
  \<open>sourceURL\<close>, each as it stands in the record: \<open>undefined\<close> when the field is absent. The
  text that the other button inserts is the title as text, a colon and a blank, and the
  hook as text: the two strings themselves when they are strings, and
  \<open>undefined: undefined\<close> when both are absent. Defaults are applied to the archetype
  (\<open>SIGNAL\<close>, then upper case: of an archetype that is a non-empty ASCII string each letter
  \<open>a\<close> to \<open>z\<close> becomes \<open>A\<close> to \<open>Z\<close>), the lenses (\<open>Tech, Social\<close>) and the score (0, and
  the label of the score badge is \<open>Score: \<close>, the score as text and \<open>/100\<close>) only. For the
  same record the store writes the placeholders \<open>Unknown\<close>, \<open>Adj\<close> and the empty string
  where the card has \<open>undefined\<close>.
\<close>

theorem C10_renderer_defaults:
  "(string_or_absent kvs ''title'' \<and> string_or_absent kvs ''hook'' \<and>
    string_or_absent kvs ''archetype'' \<and> number_or_absent kvs ''score'' \<longrightarrow>
      (\<exists>payload. buildWidgetPayload h (JObj kvs) = Inr payload)) \<and>
   (buildWidgetPayload h (JObj kvs) = Inr payload \<longrightarrow>
     field_of ''value'' (title_node payload) = own_property kvs ''title'' \<and>
     field_of ''value'' (hook_node payload) = own_property kvs ''hook'' \<and>
     field_of ''label'' (mission_badge payload) = own_property kvs ''mission'' \<and>
     field_of ''url'' (source_button_payload payload) = own_property kvs ''sourceURL'' \<and>
     (map_of kvs ''title'' = None \<longrightarrow> field_of ''value'' (title_node payload) = JUndefined) \<and>
     (map_of kvs ''hook'' = None \<longrightarrow> field_of ''value'' (hook_node payload) = JUndefined) \<and>
     (map_of kvs ''mission'' = None \<longrightarrow> field_of ''label'' (mission_badge payload) = JUndefined) \<and>
     (map_of kvs ''sourceURL'' = None \<longrightarrow>
        field_of ''url'' (source_button_payload payload) = JUndefined) \<and>
     (\<exists>t k. ToString h (own_property kvs ''title'') = Inr t \<and>
        ToString h (own_property kvs ''hook'') = Inr k \<and>
        field_of ''text'' (insert_button_payload payload) = JStr (t @ '': '' @ k)) \<and>
     (own_property kvs ''title'' = JStr t \<and> own_property kvs ''hook'' = JStr k \<longrightarrow>
        field_of ''text'' (insert_button_payload payload) = JStr (t @ '': '' @ k)) \<and>
     (map_of kvs ''title'' = None \<and> map_of kvs ''hook'' = None \<longrightarrow>
        field_of ''text'' (insert_button_payload payload) = JStr ''undefined: undefined'') \<and>
     toUpperCase h (js_or (own_property kvs ''archetype'') (JStr ''SIGNAL'')) =
       Inr (field_of ''value'' (archetype_caption payload)) \<and>
     (own_property kvs ''archetype'' = JStr a \<and> a \<noteq> [] \<and> list_all is_ascii a \<longrightarrow>
        field_of ''value'' (archetype_caption payload) = JStr (map upper_char a)) \<and>
     field_of ''value'' (lenses_caption payload) =
       js_or (own_property kvs ''lenses'') (JStr ''Tech, Social'') \<and>
     (\<exists>sl. ToString h (js_or (own_property kvs ''score'') (JNum (Fin 0))) = Inr sl \<and>
        field_of ''label'' (score_badge payload) = JStr (''Score: '' @ sl @ ''/100'')) \<and>
     (own_property kvs ''score'' = JNum (Fin (of_nat n)) \<and> 0 < n \<and> n \<le> 2 ^ 53 \<longrightarrow>
        field_of ''label'' (score_badge payload) = JStr (''Score: '' @ show_nat n @ ''/100'')) \<and>
     (map_of kvs ''archetype'' = None \<longrightarrow>
        field_of ''value'' (archetype_caption payload) = JStr ''SIGNAL'') \<and>
     (map_of kvs ''lenses'' = None \<longrightarrow>
        field_of ''value'' (lenses_caption payload) = JStr ''Tech, Social'') \<and>
     (map_of kvs ''score'' = None \<longrightarrow>
        field_of ''label'' (score_badge payload) = JStr ''Score: 0/100'') \<and>
     (\<exists>rcd. signal_record h (JObj kvs) = Inr rcd \<and>
        (map_of kvs ''title'' = None \<longrightarrow> own_property rcd ''title'' = JStr ''Unknown'') \<and>
        (map_of kvs ''hook'' = None \<longrightarrow> own_property rcd ''hook'' = JStr []) \<and>
        (map_of kvs ''mission'' = None \<longrightarrow> own_property rcd ''mission'' = JStr ''Adj'') \<and>
        (map_of kvs ''sourceURL'' = None \<longrightarrow> own_property rcd ''sourceURL'' = JStr [])))"
proof (rule conjI)
  show "string_or_absent kvs ''title'' \<and> string_or_absent kvs ''hook'' \<and>
    string_or_absent kvs ''archetype'' \<and> number_or_absent kvs ''score'' \<longrightarrow>
      (\<exists>payload. buildWidgetPayload h (JObj kvs) = Inr payload)"
    using buildWidgetPayload_typed [of kvs h] by blast
next
  show "buildWidgetPayload h (JObj kvs) = Inr payload \<longrightarrow>
     field_of ''value'' (title_node payload) = own_property kvs ''title'' \<and>
     field_of ''value'' (hook_node payload) = own_property kvs ''hook'' \<and>
     field_of ''label'' (mission_badge payload) = own_property kvs ''mission'' \<and>
     field_of ''url'' (source_button_payload payload) = own_property kvs ''sourceURL'' \<and>
     (map_of kvs ''title'' = None \<longrightarrow> field_of ''value'' (title_node payload) = JUndefined) \<and>
     (map_of kvs ''hook'' = None \<longrightarrow> field_of ''value'' (hook_node payload) = JUndefined) \<and>
     (map_of kvs ''mission'' = None \<longrightarrow> field_of ''label'' (mission_badge payload) = JUndefined) \<and>
     (map_of kvs ''sourceURL'' = None \<longrightarrow>
        field_of ''url'' (source_button_payload payload) = JUndefined) \<and>
     (\<exists>t k. ToString h (own_property kvs ''title'') = Inr t \<and>
        ToString h (own_property kvs ''hook'') = Inr k \<and>
        field_of ''text'' (insert_button_payload payload) = JStr (t @ '': '' @ k)) \<and>
     (own_property kvs ''title'' = JStr t \<and> own_property kvs ''hook'' = JStr k \<longrightarrow>
        field_of ''text'' (insert_button_payload payload) = JStr (t @ '': '' @ k)) \<and>
     (map_of kvs ''title'' = None \<and> map_of kvs ''hook'' = None \<longrightarrow>
        field_of ''text'' (insert_button_payload payload) = JStr ''undefined: undefined'') \<and>
     toUpperCase h (js_or (own_property kvs ''archetype'') (JStr ''SIGNAL'')) =
       Inr (field_of ''value'' (archetype_caption payload)) \<and>
     (own_property kvs ''archetype'' = JStr a \<and> a \<noteq> [] \<and> list_all is_ascii a \<longrightarrow>
        field_of ''value'' (archetype_caption payload) = JStr (map upper_char a)) \<and>
     field_of ''value'' (lenses_caption payload) =
       js_or (own_property kvs ''lenses'') (JStr ''Tech, Social'') \<and>
     (\<exists>sl. ToString h (js_or (own_property kvs ''score'') (JNum (Fin 0))) = Inr sl \<and>
        field_of ''label'' (score_badge payload) = JStr (''Score: '' @ sl @ ''/100'')) \<and>
     (own_property kvs ''score'' = JNum (Fin (of_nat n)) \<and> 0 < n \<and> n \<le> 2 ^ 53 \<longrightarrow>
        field_of ''label'' (score_badge payload) = JStr (''Score: '' @ show_nat n @ ''/100'')) \<and>
     (map_of kvs ''archetype'' = None \<longrightarrow>
        field_of ''value'' (archetype_caption payload) = JStr ''SIGNAL'') \<and>
     (map_of kvs ''lenses'' = None \<longrightarrow>
        field_of ''value'' (lenses_caption payload) = JStr ''Tech, Social'') \<and>
     (map_of kvs ''score'' = None \<longrightarrow>
        field_of ''label'' (score_badge payload) = JStr ''Score: 0/100'') \<and>
     (\<exists>rcd. signal_record h (JObj kvs) = Inr rcd \<and>
        (map_of kvs ''title'' = None \<longrightarrow> own_property rcd ''title'' = JStr ''Unknown'') \<and>
        (map_of kvs ''hook'' = None \<longrightarrow> own_property rcd ''hook'' = JStr []) \<and>
        (map_of kvs ''mission'' = None \<longrightarrow> own_property rcd ''mission'' = JStr ''Adj'') \<and>
        (map_of kvs ''sourceURL'' = None \<longrightarrow> own_property rcd ''sourceURL'' = JStr []))"
  proof (rule impI)
    assume built: "buildWidgetPayload h (JObj kvs) = Inr payload"
    from card_texts [OF built] obtain sl tt kk where texts:
      "ToString h (js_or (own_property kvs ''score'') (JNum (Fin 0))) = Inr sl"
      "ToString h (own_property kvs ''title'') = Inr tt"
      "ToString h (own_property kvs ''hook'') = Inr kk"
      "field_of ''label'' (score_badge payload) = JStr (''Score: '' @ sl @ ''/100'')"
      "field_of ''text'' (insert_button_payload payload) = JStr (tt @ '': '' @ kk)"
      by blast
    from built have all_nodes:
      "field_of ''value'' (title_node payload) = own_property kvs ''title'' \<and>
       field_of ''value'' (hook_node payload) = own_property kvs ''hook'' \<and>
       field_of ''label'' (mission_badge payload) = own_property kvs ''mission'' \<and>
       field_of ''url'' (source_button_payload payload) = own_property kvs ''sourceURL'' \<and>
       toUpperCase h (js_or (own_property kvs ''archetype'') (JStr ''SIGNAL'')) =
         Inr (field_of ''value'' (archetype_caption payload)) \<and>
       field_of ''value'' (lenses_caption payload) =
         js_or (own_property kvs ''lenses'') (JStr ''Tech, Social'')"
    proof (rule buildWidgetPayload_Inr)
      fix score scoreColor a l sl t hk m it u
      assume parts: "archetype_of h (JObj kvs) = Inr a" "lenses_of (JObj kvs) = Inr l"
        "js_get (JObj kvs) ''title'' = Inr t" "js_get (JObj kvs) ''hook'' = Inr hk"
        "js_get (JObj kvs) ''mission'' = Inr m" "js_get (JObj kvs) ''sourceURL'' = Inr u"
        and payload: "payload = card_tree a sl scoreColor t hk l m it u"
      from parts have "t = own_property kvs ''title''" "hk = own_property kvs ''hook''"
        "m = own_property kvs ''mission''" "u = own_property kvs ''sourceURL''"
        "l = js_or (own_property kvs ''lenses'') (JStr ''Tech, Social'')"
        "toUpperCase h (js_or (own_property kvs ''archetype'') (JStr ''SIGNAL'')) = Inr a"
        by (auto simp: lenses_of_JObj archetype_of_JObj)
      then show ?thesis
        by (simp add: payload varying_nodes_card_tree)
    qed
    then have nodes:
      "field_of ''value'' (title_node payload) = own_property kvs ''title''"
      "field_of ''value'' (hook_node payload) = own_property kvs ''hook''"
      "field_of ''label'' (mission_badge payload) = own_property kvs ''mission''"
      "field_of ''url'' (source_button_payload payload) = own_property kvs ''sourceURL''"
      "toUpperCase h (js_or (own_property kvs ''archetype'') (JStr ''SIGNAL'')) =
         Inr (field_of ''value'' (archetype_caption payload))"
      "field_of ''value'' (lenses_caption payload) =
         js_or (own_property kvs ''lenses'') (JStr ''Tech, Social'')"
      by simp_all
    have inserted_strings: "field_of ''text'' (insert_button_payload payload) = JStr (t @ '': '' @ k)"
      if "own_property kvs ''title'' = JStr t \<and> own_property kvs ''hook'' = JStr k"
      using that texts(2,3,5) by simp
    have inserted_absent:
      "field_of ''text'' (insert_button_payload payload) = JStr ''undefined: undefined''"
      if "map_of kvs ''title'' = None \<and> map_of kvs ''hook'' = None"
      using that texts(2,3,5) by (simp add: own_property_absent)
    have caption_ascii: "field_of ''value'' (archetype_caption payload) = JStr (map upper_char a)"
      if "own_property kvs ''archetype'' = JStr a \<and> a \<noteq> [] \<and> list_all is_ascii a"
      using that nodes(5) by (simp add: toUpperCase_ascii)
    have label_nat:
      "field_of ''label'' (score_badge payload) = JStr (''Score: '' @ show_nat n @ ''/100'')"
      if "own_property kvs ''score'' = JNum (Fin (of_nat n)) \<and> 0 < n \<and> n \<le> 2 ^ 53"
      using that texts(1,4) by (simp add: score_label_nat)
    have absent_archetype: "field_of ''value'' (archetype_caption payload) = JStr ''SIGNAL''"
      if "map_of kvs ''archetype'' = None"
      using that nodes(5) by (simp add: own_property_absent js_or_def toUpperCase_SIGNAL)
    have absent_score: "field_of ''label'' (score_badge payload) = JStr ''Score: 0/100''"
      if "map_of kvs ''score'' = None"
      using that texts(1,4) by (simp add: own_property_absent js_or_def eval_js)
    have store: "\<exists>rcd. signal_record h (JObj kvs) = Inr rcd \<and>
        (map_of kvs ''title'' = None \<longrightarrow> own_property rcd ''title'' = JStr ''Unknown'') \<and>
        (map_of kvs ''hook'' = None \<longrightarrow> own_property rcd ''hook'' = JStr []) \<and>
        (map_of kvs ''mission'' = None \<longrightarrow> own_property rcd ''mission'' = JStr ''Adj'') \<and>
        (map_of kvs ''sourceURL'' = None \<longrightarrow> own_property rcd ''sourceURL'' = JStr [])"
      by (simp add: signal_record_JObj own_property_def)
    have texts_ex: "\<exists>t k. ToString h (own_property kvs ''title'') = Inr t \<and>
        ToString h (own_property kvs ''hook'') = Inr k \<and>
        field_of ''text'' (insert_button_payload payload) = JStr (t @ '': '' @ k)"
      using texts(2,3,5) by blast
    have label_ex: "\<exists>sl. ToString h (js_or (own_property kvs ''score'') (JNum (Fin 0))) = Inr sl \<and>
        field_of ''label'' (score_badge payload) = JStr (''Score: '' @ sl @ ''/100'')"
      using texts(1,4) by blast
    from nodes texts_ex inserted_strings inserted_absent caption_ascii label_ex label_nat
      absent_archetype absent_score store
    show "field_of ''value'' (title_node payload) = own_property kvs ''title'' \<and>
     field_of ''value'' (hook_node payload) = own_property kvs ''hook'' \<and>
     field_of ''label'' (mission_badge payload) = own_property kvs ''mission'' \<and>
     field_of ''url'' (source_button_payload payload) = own_property kvs ''sourceURL'' \<and>
     (map_of kvs ''title'' = None \<longrightarrow> field_of ''value'' (title_node payload) = JUndefined) \<and>
     (map_of kvs ''hook'' = None \<longrightarrow> field_of ''value'' (hook_node payload) = JUndefined) \<and>
     (map_of kvs ''mission'' = None \<longrightarrow> field_of ''label'' (mission_badge payload) = JUndefined) \<and>
     (map_of kvs ''sourceURL'' = None \<longrightarrow>
        field_of ''url'' (source_button_payload payload) = JUndefined) \<and>
     (\<exists>t k. ToString h (own_property kvs ''title'') = Inr t \<and>
        ToString h (own_property kvs ''hook'') = Inr k \<and>
        field_of ''text'' (insert_button_payload payload) = JStr (t @ '': '' @ k)) \<and>
     (own_property kvs ''title'' = JStr t \<and> own_property kvs ''hook'' = JStr k \<longrightarrow>
        field_of ''text'' (insert_button_payload payload) = JStr (t @ '': '' @ k)) \<and>
     (map_of kvs ''title'' = None \<and> map_of kvs ''hook'' = None \<longrightarrow>
        field_of ''text'' (insert_button_payload payload) = JStr ''undefined: undefined'') \<and>
     toUpperCase h (js_or (own_property kvs ''archetype'') (JStr ''SIGNAL'')) =
       Inr (field_of ''value'' (archetype_caption payload)) \<and>
     (own_property kvs ''archetype'' = JStr a \<and> a \<noteq> [] \<and> list_all is_ascii a \<longrightarrow>
        field_of ''value'' (archetype_caption payload) = JStr (map upper_char a)) \<and>
     field_of ''value'' (lenses_caption payload) =
       js_or (own_property kvs ''lenses'') (JStr ''Tech, Social'') \<and>
     (\<exists>sl. ToString h (js_or (own_property kvs ''score'') (JNum (Fin 0))) = Inr sl \<and>
        field_of ''label'' (score_badge payload) = JStr (''Score: '' @ sl @ ''/100'')) \<and>
     (own_property kvs ''score'' = JNum (Fin (of_nat n)) \<and> 0 < n \<and> n \<le> 2 ^ 53 \<longrightarrow>
        field_of ''label'' (score_badge payload) = JStr (''Score: '' @ show_nat n @ ''/100'')) \<and>
     (map_of kvs ''archetype'' = None \<longrightarrow>
        field_of ''value'' (archetype_caption payload) = JStr ''SIGNAL'') \<and>
     (map_of kvs ''lenses'' = None \<longrightarrow>
        field_of ''value'' (lenses_caption payload) = JStr ''Tech, Social'') \<and>
     (map_of kvs ''score'' = None \<longrightarrow>
        field_of ''label'' (score_badge payload) = JStr ''Score: 0/100'') \<and>
     (\<exists>rcd. signal_record h (JObj kvs) = Inr rcd \<and>
        (map_of kvs ''title'' = None \<longrightarrow> own_property rcd ''title'' = JStr ''Unknown'') \<and>
        (map_of kvs ''hook'' = None \<longrightarrow> own_property rcd ''hook'' = JStr []) \<and>
        (map_of kvs ''mission'' = None \<longrightarrow> own_property rcd ''mission'' = JStr ''Adj'') \<and>
        (map_of kvs ''sourceURL'' = None \<longrightarrow> own_property rcd ''sourceURL'' = JStr []))"
      by (simp add: own_property_absent js_or_def)
  qed
qed


theorem C10_renderer_defaults_witness:
  "string_or_absent full_record ''title'' \<and> string_or_absent full_record ''hook'' \<and>
   string_or_absent full_record ''archetype'' \<and> number_or_absent full_record ''score'' \<and>
   buildWidgetPayload idle_host (JObj full_record) =
     Inr (card_tree (JStr ''TREND'') ''Score: 85/100'' ''success'' (JStr ''T'') (JStr ''H'')
            (JStr ''Tech'') (JStr ''M'') ''T: H'' (JStr ''http://u'')) \<and>
   field_of ''value'' (title_node (card_tree (JStr ''TREND'') ''Score: 85/100'' ''success''
      (JStr ''T'') (JStr ''H'') (JStr ''Tech'') (JStr ''M'') ''T: H'' (JStr ''http://u''))) =
     JStr ''T'' \<and>
   field_of ''value'' (hook_node (card_tree (JStr ''TREND'') ''Score: 85/100'' ''success''
      (JStr ''T'') (JStr ''H'') (JStr ''Tech'') (JStr ''M'') ''T: H'' (JStr ''http://u''))) =
     JStr ''H'' \<and>
   field_of ''label'' (mission_badge (card_tree (JStr ''TREND'') ''Score: 85/100'' ''success''
      (JStr ''T'') (JStr ''H'') (JStr ''Tech'') (JStr ''M'') ''T: H'' (JStr ''http://u''))) =
     JStr ''M'' \<and>
   field_of ''url'' (source_button_payload (card_tree (JStr ''TREND'') ''Score: 85/100''
      ''success'' (JStr ''T'') (JStr ''H'') (JStr ''Tech'') (JStr ''M'') ''T: H''
      (JStr ''http://u''))) = JStr ''http://u'' \<and>
   field_of ''text'' (insert_button_payload (card_tree (JStr ''TREND'') ''Score: 85/100''
      ''success'' (JStr ''T'') (JStr ''H'') (JStr ''Tech'') (JStr ''M'') ''T: H''
      (JStr ''http://u''))) = JStr ''T: H'' \<and>
   field_of ''value'' (archetype_caption (card_tree (JStr ''TREND'') ''Score: 85/100''
      ''success'' (JStr ''T'') (JStr ''H'') (JStr ''Tech'') (JStr ''M'') ''T: H''
      (JStr ''http://u''))) = JStr ''TREND'' \<and>
   field_of ''value'' (lenses_caption (card_tree (JStr ''TREND'') ''Score: 85/100''
      ''success'' (JStr ''T'') (JStr ''H'') (JStr ''Tech'') (JStr ''M'') ''T: H''
      (JStr ''http://u''))) = JStr ''Tech'' \<and>
   field_of ''label'' (score_badge (card_tree (JStr ''TREND'') ''Score: 85/100''
      ''success'' (JStr ''T'') (JStr ''H'') (JStr ''Tech'') (JStr ''M'') ''T: H''
      (JStr ''http://u''))) = JStr ''Score: 85/100'' \<and>
   buildWidgetPayload idle_host (JObj []) =
     Inr (card_tree (JStr ''SIGNAL'') ''Score: 0/100'' ''secondary'' JUndefined JUndefined
            (JStr ''Tech, Social'') JUndefined ''undefined: undefined'' JUndefined) \<and>
   map_of ([] :: (string \<times> jsval) list) ''title'' = None \<and>
   field_of ''value'' (title_node (card_tree (JStr ''SIGNAL'') ''Score: 0/100'' ''secondary''
      JUndefined JUndefined (JStr ''Tech, Social'') JUndefined ''undefined: undefined''
      JUndefined)) = JUndefined \<and>
   field_of ''url'' (source_button_payload (card_tree (JStr ''SIGNAL'') ''Score: 0/100''
      ''secondary'' JUndefined JUndefined (JStr ''Tech, Social'') JUndefined
      ''undefined: undefined'' JUndefined)) = JUndefined \<and>
   signal_record idle_host (JObj []) =
     Inr [(''timestamp'', JStr ''2024-05-01T12:00:00.000Z''), (''title'', JStr ''Unknown''),
          (''score'', JNum (Fin 0)), (''mission'', JStr ''Adj''), (''archetype'', JStr ''Signal''),
          (''hook'', JStr []), (''sourceURL'', JStr [])]"
proof -
  have typed: "string_or_absent full_record ''title''" "string_or_absent full_record ''hook''"
    "string_or_absent full_record ''archetype''" "number_or_absent full_record ''score''"
    by (simp_all add: string_or_absent_def number_or_absent_def full_record_def)
  have fields: "own_property full_record ''title'' = JStr ''T''"
    "own_property full_record ''hook'' = JStr ''H''"
    "own_property full_record ''mission'' = JStr ''M''"
    "own_property full_record ''sourceURL'' = JStr ''http://u''"
    "own_property full_record ''lenses'' = JStr ''Tech''"
    "own_property full_record ''archetype'' = JStr ''trend''"
    "own_property full_record ''score'' = JNum (Fin (of_nat 85))"
    by (simp_all add: own_property_def full_record_def)
  have upper: "list_all is_ascii ''trend''" "map upper_char ''trend'' = ''TREND''"
    "show_nat 85 = ''85''"
    by (simp_all add: is_ascii_def upper_char_def show_nat.simps digit_char_def)
  from C10_renderer_defaults [of full_record idle_host
      "card_tree (JStr ''TREND'') ''Score: 85/100'' ''success'' (JStr ''T'') (JStr ''H'')
         (JStr ''Tech'') (JStr ''M'') ''T: H'' (JStr ''http://u'')" "''T''" "''H''" "''trend''" 85]
    card_of_full_record typed fields upper
  have full: "field_of ''value'' (title_node (card_tree (JStr ''TREND'') ''Score: 85/100''
      ''success'' (JStr ''T'') (JStr ''H'') (JStr ''Tech'') (JStr ''M'') ''T: H''
      (JStr ''http://u''))) = JStr ''T''"
    "field_of ''value'' (hook_node (card_tree (JStr ''TREND'') ''Score: 85/100'' ''success''
      (JStr ''T'') (JStr ''H'') (JStr ''Tech'') (JStr ''M'') ''T: H'' (JStr ''http://u''))) =
     JStr ''H''"
    "field_of ''label'' (mission_badge (card_tree (JStr ''TREND'') ''Score: 85/100'' ''success''
      (JStr ''T'') (JStr ''H'') (JStr ''Tech'') (JStr ''M'') ''T: H'' (JStr ''http://u''))) =
     JStr ''M''"
    "field_of ''url'' (source_button_payload (card_tree (JStr ''TREND'') ''Score: 85/100''
      ''success'' (JStr ''T'') (JStr ''H'') (JStr ''Tech'') (JStr ''M'') ''T: H''
      (JStr ''http://u''))) = JStr ''http://u''"
    "field_of ''text'' (insert_button_payload (card_tree (JStr ''TREND'') ''Score: 85/100''
      ''success'' (JStr ''T'') (JStr ''H'') (JStr ''Tech'') (JStr ''M'') ''T: H''
      (JStr ''http://u''))) = JStr ''T: H''"
    "field_of ''value'' (archetype_caption (card_tree (JStr ''TREND'') ''Score: 85/100''
      ''success'' (JStr ''T'') (JStr ''H'') (JStr ''Tech'') (JStr ''M'') ''T: H''
      (JStr ''http://u''))) = JStr ''TREND''"
    "field_of ''value'' (lenses_caption (card_tree (JStr ''TREND'') ''Score: 85/100''
      ''success'' (JStr ''T'') (JStr ''H'') (JStr ''Tech'') (JStr ''M'') ''T: H''
      (JStr ''http://u''))) = JStr ''Tech''"
    "field_of ''label'' (score_badge (card_tree (JStr ''TREND'') ''Score: 85/100''
      ''success'' (JStr ''T'') (JStr ''H'') (JStr ''Tech'') (JStr ''M'') ''T: H''
      (JStr ''http://u''))) = JStr ''Score: 85/100''"
    by (simp_all add: js_or_def eval_js)
  from C10_renderer_defaults [of "[]" idle_host
      "card_tree (JStr ''SIGNAL'') ''Score: 0/100'' ''secondary'' JUndefined JUndefined
         (JStr ''Tech, Social'') JUndefined ''undefined: undefined'' JUndefined"]
    card_of_empty_record
  have empty: "field_of ''value'' (title_node (card_tree (JStr ''SIGNAL'') ''Score: 0/100''
      ''secondary'' JUndefined JUndefined (JStr ''Tech, Social'') JUndefined
      ''undefined: undefined'' JUndefined)) = JUndefined"
    "field_of ''url'' (source_button_payload (card_tree (JStr ''SIGNAL'') ''Score: 0/100''
      ''secondary'' JUndefined JUndefined (JStr ''Tech, Social'') JUndefined
      ''undefined: undefined'' JUndefined)) = JUndefined"
    by (simp_all add: own_property_def)
  from typed card_of_full_record full card_of_empty_record empty show ?thesis
    by (simp add: signal_record_def eval_js eval_host)
qed

end
